theory Spec2Isabelle
  imports Complex_Main "HOL-Library.Sublist" "HOL-Library.Char_ord" "HOL-Library.List_Lexorder"
begin

section \<open>JavaScript values\<close>

text \<open>
  The record bundle reaches \<^verbatim>\<open>ContextService.buildUserContext\<close> as a parsed JSON body
  (\<^verbatim>\<open>req.body.userData\<close> in server.js) or as a literal object of a direct caller, so a
  value is one of the JSON shapes or a \<^verbatim>\<open>Date\<close> object. An object is the association
  list of its own properties, each key once; a \<^verbatim>\<open>Date\<close> carries its time value in milliseconds since the
  epoch, \<open>None\<close> standing for the time value NaN ("Invalid Date").

  Numbers: a finite number is an exact rational. Every operation below is the
  ECMAScript one computed without rounding to binary64, so the model agrees with the
  engine wherever the engine's arithmetic is exact (integers below \<open>2^53\<close>, short
  decimals). Strings are ASCII.
\<close>

datatype jsnum = NaN | PInf | NInf | Fin rat

datatype jsval =
    JUndefined
  | JNull
  | JBool bool
  | JNum jsnum
  | JStr string
  | JArr "jsval list"
  | JObj "(string \<times> jsval) list"
  | JDate "int option"

text \<open>Every exception the service can meet is a \<^verbatim>\<open>TypeError\<close>; no handler inspects it.\<close>

datatype error = TypeError

definition bindE :: "error + 'a \<Rightarrow> ('a \<Rightarrow> error + 'b) \<Rightarrow> error + 'b" where
  "bindE m f = (case m of Inl e \<Rightarrow> Inl e | Inr x \<Rightarrow> f x)"

text \<open>A template literal: the pieces are evaluated left to right and concatenated; the
  first piece that throws aborts the literal.\<close>

fun cat :: "(error + string) list \<Rightarrow> error + string" where
  "cat [] = Inr []"
| "cat (p # ps) = bindE p (\<lambda>s. bindE (cat ps) (\<lambda>t. Inr (s @ t)))"

subsection \<open>Number to string\<close>

function dec :: "int \<Rightarrow> string" where
  "dec n = (if n < 10 then [''0123456789'' ! nat n]
            else dec (n div 10) @ [''0123456789'' ! nat (n mod 10)])"
  by pat_completeness auto
termination
  by (relation "measure nat") auto

declare dec.simps [simp del]

definition int_str :: "int \<Rightarrow> string" where
  "int_str i = (if i < 0 then ''-'' @ dec (- i) else dec i)"

definition is_int :: "rat \<Rightarrow> bool" where
  "is_int r = (of_int \<lfloor>r\<rfloor> = r)"

text \<open>The least \<open>j\<close> with \<open>r * 10^j\<close> integral, searched up to the fuel. A finite decimal
  with denominator \<open>b\<close> needs fewer than \<open>b\<close> steps.\<close>

function shift10 :: "int \<Rightarrow> rat \<Rightarrow> int" where
  "shift10 f r = (if f \<le> 0 \<or> is_int r then 0 else 1 + shift10 (f - 1) (r * 10))"
  by pat_completeness auto
termination
  by (relation "measure (\<lambda>(f, r). nat f)") auto

declare shift10.simps [simp del]

text \<open>Trailing zeros of a positive integer are dropped and counted.\<close>

function strip0 :: "int \<Rightarrow> int \<Rightarrow> int \<times> int" where
  "strip0 s z = (if 0 < s \<and> s mod 10 = 0 then strip0 (s div 10) (z + 1) else (s, z))"
  by pat_completeness auto
termination
  by (relation "measure (\<lambda>(s, z). nat s)") auto

declare strip0.simps [simp del]

text \<open>\<^verbatim>\<open>Number::toString\<close> (ECMA-262, radix 10) for a positive finite number: \<open>s\<close> holds
  the \<open>k\<close> significant digits and \<open>n\<close> is the position of the decimal point.\<close>

definition pos_str :: "rat \<Rightarrow> string" where
  "pos_str r =
     (let j = shift10 (snd (quotient_of r)) r;
          (s, z) = strip0 \<lfloor>r * 10 ^ nat j\<rfloor> 0;
          ds = dec s;
          k = int (length ds);
          n = k + z - j
      in if k \<le> n \<and> n \<le> 21 then ds @ replicate (nat (n - k)) (CHR ''0'')
         else if 0 < n \<and> n \<le> 21 then take (nat n) ds @ ''.'' @ drop (nat n) ds
         else if - 6 < n \<and> n \<le> 0 then ''0.'' @ replicate (nat (- n)) (CHR ''0'') @ ds
         else (if k = 1 then ds else take 1 ds @ ''.'' @ drop 1 ds)
              @ ''e'' @ (if 0 \<le> n - 1 then ''+'' else ''-'') @ dec \<bar>n - 1\<bar>)"

fun Number_toString :: "jsnum \<Rightarrow> string" where
  "Number_toString NaN = ''NaN''"
| "Number_toString PInf = ''Infinity''"
| "Number_toString NInf = ''-Infinity''"
| "Number_toString (Fin r) =
     (if r = 0 then ''0'' else if r < 0 then ''-'' @ pos_str (- r) else pos_str r)"

text \<open>\<^verbatim>\<open>Number.prototype.toFixed(2)\<close>: the nearest multiple of 1/100, the larger one on a
  tie; a magnitude of \<open>10^21\<close> or more falls back to \<^verbatim>\<open>Number::toString\<close>.\<close>

definition toFixed2 :: "jsnum \<Rightarrow> string" where
  "toFixed2 x =
     (case x of
        Fin r \<Rightarrow>
          (let s = (if r < 0 then ''-'' else '''');
               a = \<bar>r\<bar>
           in if 10 ^ 21 \<le> a then s @ pos_str a
              else let n = \<lfloor>a * 100 + 1 / 2\<rfloor>;
                       m = dec n;
                       m' = (if length m \<le> 2 then replicate (3 - length m) (CHR ''0'') @ m else m)
                   in s @ take (length m' - 2) m' @ ''.'' @ drop (length m' - 2) m')
      | _ \<Rightarrow> Number_toString x)"

subsection \<open>String to number\<close>

definition is_ws :: "char \<Rightarrow> bool" where
  "is_ws c = (c \<in> set [CHR 0x09, CHR 0x0A, CHR 0x0B, CHR 0x0C, CHR 0x0D, CHR '' ''])"

definition is_digit :: "char \<Rightarrow> bool" where
  "is_digit c = (c \<in> set ''0123456789'')"

definition digit_val :: "char \<Rightarrow> int" where
  "digit_val c = int (of_char c) - 48"

definition digits_val :: "string \<Rightarrow> int" where
  "digits_val ds = foldl (\<lambda>a c. a * 10 + digit_val c) 0 ds"

definition pow10 :: "int \<Rightarrow> rat" where
  "pow10 e = (if 0 \<le> e then 10 ^ nat e else 1 / 10 ^ nat (- e))"

text \<open>The exponent part of a decimal literal, when one is complete: its value and the
  rest of the input.\<close>

definition scan_exponent :: "string \<Rightarrow> (int \<times> string) option" where
  "scan_exponent s =
     (case s of
        [] \<Rightarrow> None
      | c # t \<Rightarrow>
          if c = CHR ''e'' \<or> c = CHR ''E'' then
            (let (sg, u) = (case t of
                              [] \<Rightarrow> (1, t)
                            | d # v \<Rightarrow> if d = CHR ''+'' then (1, v)
                                       else if d = CHR ''-'' then (- 1, v) else (1, t));
                 ds = takeWhile is_digit u
             in if ds = [] then None else Some (sg * digits_val ds, dropWhile is_digit u))
          else None)"

text \<open>The longest prefix that is a \<^verbatim>\<open>StrDecimalLiteral\<close> (ECMA-262): its value and the rest.\<close>

definition scan_decimal :: "string \<Rightarrow> (jsnum \<times> string) option" where
  "scan_decimal s =
     (let (sg, s1) = (case s of
                        [] \<Rightarrow> (1, s)
                      | c # t \<Rightarrow> if c = CHR ''+'' then (1, t)
                                 else if c = CHR ''-'' then (- 1, t) else (1, s))
      in if take 8 s1 = ''Infinity'' then Some (if sg = (1::int) then PInf else NInf, drop 8 s1)
         else
           let d1 = takeWhile is_digit s1;
               r1 = dropWhile is_digit s1;
               dot = (r1 \<noteq> [] \<and> hd r1 = CHR ''.'');
               d2 = (if dot then takeWhile is_digit (tl r1) else []);
               r2 = (if dot \<and> (d1 \<noteq> [] \<or> d2 \<noteq> []) then dropWhile is_digit (tl r1) else r1)
           in if d1 = [] \<and> d2 = [] then None
              else
                let m = of_int (digits_val d1) + of_int (digits_val d2) / 10 ^ length d2
                in case scan_exponent r2 of
                     None \<Rightarrow> Some (Fin (of_int sg * m), r2)
                   | Some (e, r3) \<Rightarrow> Some (Fin (of_int sg * m * pow10 e), r3))"

text \<open>\<^verbatim>\<open>parseFloat\<close> on a string: leading white space is skipped, then the longest
  decimal prefix counts; none gives NaN.\<close>

definition parseFloat_str :: "string \<Rightarrow> jsnum" where
  "parseFloat_str s = (case scan_decimal (dropWhile is_ws s) of None \<Rightarrow> NaN | Some (v, _) \<Rightarrow> v)"

definition radix_digit :: "char \<Rightarrow> int option" where
  "radix_digit c =
     (let n = of_char c :: nat
      in if 48 \<le> n \<and> n \<le> 57 then Some (int n - 48)
         else if 97 \<le> n \<and> n \<le> 102 then Some (int n - 87)
         else if 65 \<le> n \<and> n \<le> 70 then Some (int n - 55)
         else None)"

definition radix_val :: "int \<Rightarrow> string \<Rightarrow> jsnum" where
  "radix_val b ds =
     (if ds \<noteq> [] \<and> list_all (\<lambda>c. case radix_digit c of None \<Rightarrow> False | Some d \<Rightarrow> d < b) ds
      then Fin (of_int (foldl (\<lambda>a c. a * b + the (radix_digit c)) 0 ds))
      else NaN)"

text \<open>\<^verbatim>\<open>StringToNumber\<close>: the whole trimmed string must be a numeric literal; the empty
  string is 0.\<close>

definition StringToNumber :: "string \<Rightarrow> jsnum" where
  "StringToNumber s =
     (let t = rev (dropWhile is_ws (rev (dropWhile is_ws s)))
      in if t = [] then Fin 0
         else if take 2 t = ''0x'' \<or> take 2 t = ''0X'' then radix_val 16 (drop 2 t)
         else if take 2 t = ''0o'' \<or> take 2 t = ''0O'' then radix_val 8 (drop 2 t)
         else if take 2 t = ''0b'' \<or> take 2 t = ''0B'' then radix_val 2 (drop 2 t)
         else case scan_decimal t of
                Some (v, []) \<Rightarrow> v
              | _ \<Rightarrow> NaN)"

subsection \<open>The host\<close>

text \<open>
  What ECMAScript leaves to the implementation, the ICU data and the time zone of the
  process is a parameter: \<^verbatim>\<open>Date.parse\<close> (only the ISO format is specified), the
  \<^verbatim>\<open>en-US\<close> renderings of a valid time value and the local calendar fields. The time
  value NaN is handled in the model, as the standard fixes it.
\<close>

record host =
  Date_parse :: "string \<Rightarrow> int option"
  Date_toString :: "int \<Rightarrow> string"
  toLocaleDateString :: "int \<Rightarrow> string"
  toLocaleTimeString :: "int \<Rightarrow> string"
  getFullYear :: "int \<Rightarrow> int"
  getMonth :: "int \<Rightarrow> int"

subsection \<open>Conversions and property access\<close>

fun truthy :: "jsval \<Rightarrow> bool" where
  "truthy JUndefined = False"
| "truthy JNull = False"
| "truthy (JBool b) = b"
| "truthy (JNum n) = (n \<noteq> NaN \<and> n \<noteq> Fin 0)"
| "truthy (JStr s) = (s \<noteq> [])"
| "truthy (JArr xs) = True"
| "truthy (JObj kvs) = True"
| "truthy (JDate d) = True"

definition orElse :: "jsval \<Rightarrow> jsval \<Rightarrow> jsval" where
  "orElse v d = (if truthy v then v else d)"

definition nullish :: "jsval \<Rightarrow> bool" where
  "nullish v = (v = JUndefined \<or> v = JNull)"

text \<open>\<^verbatim>\<open>v.k\<close> for a \<open>v\<close> that is neither null nor undefined (on those the access
  throws, which each caller writes out) and a \<open>k\<close> among the field names the service
  reads: an own property of an object, \<^verbatim>\<open>length\<close> of an array or a string, and
  undefined otherwise, none of these names being on a prototype.\<close>

fun fld :: "jsval \<Rightarrow> string \<Rightarrow> jsval" where
  "fld (JObj kvs) k = (case map_of kvs k of None \<Rightarrow> JUndefined | Some v \<Rightarrow> v)"
| "fld (JArr xs) k = (if k = ''length'' then JNum (Fin (of_nat (length xs))) else JUndefined)"
| "fld (JStr s) k = (if k = ''length'' then JNum (Fin (of_nat (length s))) else JUndefined)"
| "fld v k = JUndefined"

text \<open>\<^verbatim>\<open>ToString\<close>, as a template literal applies it. An array joins its elements with
  commas, null and undefined elements as empty strings. A plain object answers
  \<^verbatim>\<open>[object Object]\<close> through \<^verbatim>\<open>Object.prototype.toString\<close>, unless it has an own
  property \<^verbatim>\<open>toString\<close>: that one is data, not callable, and the conversion throws.\<close>

fun ToString :: "host \<Rightarrow> jsval \<Rightarrow> error + string"
  and join :: "host \<Rightarrow> jsval list \<Rightarrow> error + string" where
  "ToString h JUndefined = Inr ''undefined''"
| "ToString h JNull = Inr ''null''"
| "ToString h (JBool b) = Inr (if b then ''true'' else ''false'')"
| "ToString h (JNum n) = Inr (Number_toString n)"
| "ToString h (JStr s) = Inr s"
| "ToString h (JArr xs) = join h xs"
| "ToString h (JObj kvs) =
     (if ''toString'' \<in> fst ` set kvs then Inl TypeError else Inr ''[object Object]'')"
| "ToString h (JDate d) =
     Inr (case d of None \<Rightarrow> ''Invalid Date'' | Some t \<Rightarrow> Date_toString h t)"
| "join h [] = Inr []"
| "join h (x # xs) =
     bindE (if nullish x then Inr [] else ToString h x) (\<lambda>s.
       if xs = [] then Inr s else bindE (join h xs) (\<lambda>t. Inr (s @ '','' @ t)))"

text \<open>\<^verbatim>\<open>parseFloat(v)\<close> converts its argument to a string first. For a number the
  round trip through its string is exact in binary64, so the number itself comes
  back.\<close>

definition parseFloat :: "host \<Rightarrow> jsval \<Rightarrow> error + jsnum" where
  "parseFloat h v =
     (case v of
        JNum n \<Rightarrow> Inr n
      | _ \<Rightarrow> bindE (ToString h v) (\<lambda>s. Inr (parseFloat_str s)))"

text \<open>\<^verbatim>\<open>ToNumber\<close>; an object is first converted to a primitive, a \<^verbatim>\<open>Date\<close> to its time
  value.\<close>

definition ToNumber :: "host \<Rightarrow> jsval \<Rightarrow> error + jsnum" where
  "ToNumber h v =
     (case v of
        JUndefined \<Rightarrow> Inr NaN
      | JNull \<Rightarrow> Inr (Fin 0)
      | JBool b \<Rightarrow> Inr (Fin (if b then 1 else 0))
      | JNum n \<Rightarrow> Inr n
      | JStr s \<Rightarrow> Inr (StringToNumber s)
      | JDate d \<Rightarrow> Inr (case d of None \<Rightarrow> NaN | Some t \<Rightarrow> Fin (of_int t))
      | _ \<Rightarrow> bindE (ToString h v) (\<lambda>s. Inr (StringToNumber s)))"

text \<open>\<^verbatim>\<open>v > 0\<close>.\<close>

definition gt_zero :: "host \<Rightarrow> jsval \<Rightarrow> error + bool" where
  "gt_zero h v =
     bindE (ToNumber h v) (\<lambda>n. Inr (case n of Fin r \<Rightarrow> 0 < r | PInf \<Rightarrow> True | _ \<Rightarrow> False))"

text \<open>Addition of numbers.\<close>

fun add_num :: "jsnum \<Rightarrow> jsnum \<Rightarrow> jsnum" where
  "add_num (Fin a) (Fin b) = Fin (a + b)"
| "add_num NaN _ = NaN"
| "add_num _ NaN = NaN"
| "add_num PInf NInf = NaN"
| "add_num NInf PInf = NaN"
| "add_num PInf _ = PInf"
| "add_num _ PInf = PInf"
| "add_num NInf _ = NInf"
| "add_num _ NInf = NInf"

text \<open>\<^verbatim>\<open>n || 0\<close> on a number.\<close>

definition or_zero :: "jsnum \<Rightarrow> jsnum" where
  "or_zero n = (if n = NaN then Fin 0 else n)"

subsection \<open>Dates\<close>

text \<open>\<^verbatim>\<open>TimeClip\<close>: a time value is an integer of magnitude at most 8.64e15.\<close>

definition TimeClip :: "jsnum \<Rightarrow> int option" where
  "TimeClip n =
     (case n of
        Fin r \<Rightarrow> if \<bar>r\<bar> \<le> 8640000000000000
                 then Some (if r < 0 then - \<lfloor>- r\<rfloor> else \<lfloor>r\<rfloor>) else None
      | _ \<Rightarrow> None)"

text \<open>\<^verbatim>\<open>new Date(v)\<close>: the time value of the new object. A \<^verbatim>\<open>Date\<close> is copied, a string
  is parsed, an array or object is converted to a string and parsed, anything else is
  taken as a number of milliseconds.\<close>

definition new_Date :: "host \<Rightarrow> jsval \<Rightarrow> error + int option" where
  "new_Date h v =
     (case v of
        JDate d \<Rightarrow> Inr d
      | JStr s \<Rightarrow> Inr (Date_parse h s)
      | JArr xs \<Rightarrow> bindE (ToString h v) (\<lambda>s. Inr (Date_parse h s))
      | JObj kvs \<Rightarrow> bindE (ToString h v) (\<lambda>s. Inr (Date_parse h s))
      | _ \<Rightarrow> bindE (ToNumber h v) (\<lambda>n. Inr (TimeClip n)))"

text \<open>\<^verbatim>\<open>d > now\<close> on two dates: false when \<open>d\<close> is invalid. The clock's date is valid.\<close>

definition after :: "int option \<Rightarrow> int \<Rightarrow> bool" where
  "after d now = (case d of None \<Rightarrow> False | Some t \<Rightarrow> now < t)"

text \<open>\<^verbatim>\<open>_formatDisplayDate\<close> (lines 600-613).\<close>

definition formatDisplayDate :: "host \<Rightarrow> jsval \<Rightarrow> string" where
  "formatDisplayDate h date =
     (case date of
        JDate None \<Rightarrow> ''Invalid Date''
      | JDate (Some t) \<Rightarrow> toLocaleDateString h t
      | _ \<Rightarrow> ''Date TBD'')"

text \<open>\<^verbatim>\<open>_formatTime\<close> (lines 620-630).\<close>

definition formatTime :: "host \<Rightarrow> jsval \<Rightarrow> string" where
  "formatTime h date =
     (case date of
        JDate None \<Rightarrow> ''Invalid Date''
      | JDate (Some t) \<Rightarrow> toLocaleTimeString h t
      | _ \<Rightarrow> ''Time TBD'')"

text \<open>\<^verbatim>\<open>_formatJobDate\<close> (lines 637-648). Neither \<^verbatim>\<open>new Date(string)\<close> nor
  \<^verbatim>\<open>_formatDisplayDate\<close> throws, so the handler that would return the raw string is
  never entered and the function is total.\<close>

definition formatJobDate :: "host \<Rightarrow> jsval \<Rightarrow> string" where
  "formatJobDate h date =
     (if \<not> truthy date then ''Date TBD''
      else let dateObj = (case date of JStr s \<Rightarrow> JDate (Date_parse h s) | _ \<Rightarrow> date)
           in formatDisplayDate h dateObj)"

section \<open>Section formatters\<close>

text \<open>\<^verbatim>\<open>xs.forEach(cb)\<close> with a callback that updates local variables: a left fold over
  the elements of an array that stops at the first exception. Only an array has the
  method; on any other value the call throws.\<close>

fun foldE :: "('s \<Rightarrow> jsval \<Rightarrow> error + 's) \<Rightarrow> 's \<Rightarrow> jsval list \<Rightarrow> error + 's" where
  "foldE f a [] = Inr a"
| "foldE f a (x # xs) = bindE (f a x) (\<lambda>a'. foldE f a' xs)"

definition forEach :: "('s \<Rightarrow> jsval \<Rightarrow> error + 's) \<Rightarrow> 's \<Rightarrow> jsval \<Rightarrow> error + 's" where
  "forEach f a xs = (case xs of JArr ys \<Rightarrow> foldE f a ys | _ \<Rightarrow> Inl TypeError)"

text \<open>\<^verbatim>\<open>xs.slice(0, n)\<close>: arrays and strings have the method.\<close>

definition slice0 :: "nat \<Rightarrow> jsval \<Rightarrow> error + jsval" where
  "slice0 n xs =
     (case xs of
        JArr ys \<Rightarrow> Inr (JArr (take n ys))
      | JStr s \<Rightarrow> Inr (JStr (take n s))
      | _ \<Rightarrow> Inl TypeError)"

text \<open>\<^verbatim>\<open>!xs || xs.length === 0\<close>.\<close>

definition noRecords :: "jsval \<Rightarrow> bool" where
  "noRecords xs = (\<not> truthy xs \<or> fld xs ''length'' = JNum (Fin 0))"

text \<open>\<^verbatim>\<open>section += block\<close> for the block a callback renders from one record.\<close>

definition append_block :: "(jsval \<Rightarrow> error + string) \<Rightarrow> string \<Rightarrow> jsval \<Rightarrow> error + string" where
  "append_block blk sec x = bindE (blk x) (\<lambda>b. Inr (sec @ b))"

text \<open>\<^verbatim>\<open>${v || 'd'}\<close>.\<close>

definition tpl_or :: "host \<Rightarrow> jsval \<Rightarrow> string \<Rightarrow> error + string" where
  "tpl_or h v d = ToString h (orElse v (JStr d))"

text \<open>A line that is appended only when \<open>v\<close> is truthy.\<close>

definition when_truthy :: "jsval \<Rightarrow> (error + string) list \<Rightarrow> error + string" where
  "when_truthy v ps = (if truthy v then cat ps else Inr [])"

text \<open>\<^verbatim>\<open>${city}${country ? `, ${country}` : ''}\<close>.\<close>

definition city_country :: "host \<Rightarrow> jsval \<Rightarrow> error + string" where
  "city_country h x =
     cat [ToString h (fld x ''city''),
          if truthy (fld x ''country'') then cat [Inr '', '', ToString h (fld x ''country'')]
          else Inr []]"

subsection \<open>\<^verbatim>\<open>_buildUserProfileSection\<close> (lines 109-128)\<close>

text \<open>\<^verbatim>\<open>Object.keys(v).length === 0\<close> for a truthy \<open>v\<close>.\<close>

definition no_keys :: "jsval \<Rightarrow> bool" where
  "no_keys v = (case v of JObj kvs \<Rightarrow> kvs = [] | JArr xs \<Rightarrow> xs = [] | JStr s \<Rightarrow> s = [] | _ \<Rightarrow> True)"

definition buildUserProfileSection :: "host \<Rightarrow> jsval \<Rightarrow> error + string" where
  "buildUserProfileSection h userProfile =
     (if \<not> truthy userProfile \<or> no_keys userProfile then Inr ''USER PROFILE: Profile not found.''
      else cat
        [Inr ''USER PROFILE:\<newline>'',
         Inr ''- Name: '', tpl_or h (fld userProfile ''name'') ''Not specified'', Inr ''\<newline>'',
         Inr ''- Email: '', tpl_or h (fld userProfile ''email'') ''Not specified'', Inr ''\<newline>'',
         when_truthy (fld userProfile ''phone'')
           [Inr ''- Phone: '', ToString h (fld userProfile ''phone''), Inr ''\<newline>''],
         when_truthy (fld userProfile ''displayName'')
           [Inr ''- Display Name: '', ToString h (fld userProfile ''displayName''), Inr ''\<newline>''],
         Inr ''\<newline>''])"

subsection \<open>\<^verbatim>\<open>_buildJobsSection\<close> (lines 135-184)\<close>

record jobs_acc =
  sec :: string
  totalEarnings :: jsnum
  upcomingJobs :: nat
  completedJobs :: nat

text \<open>The lines one job adds to the section (lines 166-175).\<close>

definition jobBlock :: "host \<Rightarrow> jsval \<Rightarrow> error + string" where
  "jobBlock h job =
     cat [Inr ''- '', Inr (formatJobDate h (fld job ''date'')), Inr '': '',
          tpl_or h (fld job ''clientName'') ''Unknown Client'', Inr '' ('',
          tpl_or h (fld job ''type'') ''Job'', Inr '')\<newline>'',
          Inr ''  Rate: '', tpl_or h (fld job ''rate'') ''TBD'', Inr '' '',
          tpl_or h (fld job ''currency'') ''USD'', Inr '' | Status: '',
          tpl_or h (fld job ''status'') ''Unknown'', Inr '' | Payment: '',
          tpl_or h (fld job ''paymentStatus'') ''Unknown'', Inr ''\<newline>'',
          Inr ''  Location: '', tpl_or h (fld job ''location'') ''TBD'', Inr ''\<newline>'',
          when_truthy (fld job ''notes'')
            [Inr ''  Notes: '', ToString h (fld job ''notes''), Inr ''\<newline>''],
          Inr ''\<newline>'']"

text \<open>The callback of the loop (lines 148-176). \<^verbatim>\<open>job.rate\<close> on a null or undefined
  element throws out of the loop. The date is classified inside its own
  \<^verbatim>\<open>try\<close>: an exception of \<^verbatim>\<open>new Date\<close> leaves both counters as they are.\<close>

definition jobs_step :: "host \<Rightarrow> int \<Rightarrow> jobs_acc \<Rightarrow> jsval \<Rightarrow> error + jobs_acc" where
  "jobs_step h now a job =
     (if nullish job then Inl TypeError
      else
        bindE (if truthy (fld job ''rate'')
               then bindE (parseFloat h (fld job ''rate''))
                      (\<lambda>n. Inr (add_num (totalEarnings a) (or_zero n)))
               else Inr (totalEarnings a)) (\<lambda>total.
        let (up, done) =
              (if truthy (fld job ''date'') then
                 (case new_Date h (fld job ''date'') of
                    Inl e \<Rightarrow> (upcomingJobs a, completedJobs a)
                  | Inr jobDate \<Rightarrow>
                      if after jobDate now then (Suc (upcomingJobs a), completedJobs a)
                      else (upcomingJobs a, Suc (completedJobs a)))
               else (upcomingJobs a, completedJobs a))
        in bindE (append_block (jobBlock h) (sec a) job) (\<lambda>s.
             Inr \<lparr>sec = s, totalEarnings = total, upcomingJobs = up, completedJobs = done\<rparr>)))"

text \<open>The summary lines (lines 178-181).\<close>

definition jobs_summary :: "jobs_acc \<Rightarrow> string" where
  "jobs_summary a =
     sec a @ ''SUMMARY:\<newline>''
     @ ''- Total Earnings: $'' @ toFixed2 (totalEarnings a) @ '' USD\<newline>''
     @ ''- Upcoming Jobs: '' @ dec (int (upcomingJobs a)) @ ''\<newline>''
     @ ''- Completed Jobs: '' @ dec (int (completedJobs a)) @ ''\<newline>''"

text \<open>The body after the guard, for the clock reading \<open>now\<close> of line 146.\<close>

definition jobs_body :: "host \<Rightarrow> int \<Rightarrow> string \<Rightarrow> jsval \<Rightarrow> error + string" where
  "jobs_body h now header jobs =
     bindE (forEach (jobs_step h now)
              \<lparr>sec = header, totalEarnings = Fin 0, upcomingJobs = 0, completedJobs = 0\<rparr> jobs)
       (\<lambda>a. Inr (jobs_summary a))"

text \<open>The clock is a sequence of readings, \<open>clk k\<close> the one that the \<open>k\<close>-th
  \<^verbatim>\<open>new Date()\<close> of the run returns; a function that reads it takes the number of
  readings so far and returns the new number with its result.\<close>

definition buildJobsSection ::
  "host \<Rightarrow> (nat \<Rightarrow> int) \<Rightarrow> nat \<Rightarrow> jsval \<Rightarrow> (error + string) \<times> nat" where
  "buildJobsSection h clk k jobs =
     (if noRecords jobs then (Inr ''JOBS: No jobs found.'', k)
      else
        case cat [Inr ''JOBS ('', ToString h (fld jobs ''length''), Inr '' total):\<newline>''] of
          Inl e \<Rightarrow> (Inl e, k)
        | Inr header \<Rightarrow> (jobs_body h (clk k) header jobs, Suc k))"

subsection \<open>\<^verbatim>\<open>_buildEventsSection\<close> (lines 191-223)\<close>

definition toUpperCase :: "string \<Rightarrow> string" where
  "toUpperCase s =
     map (\<lambda>c. if CHR ''a'' \<le> c \<and> c \<le> CHR ''z'' then char_of (of_char c - 32 :: nat) else c) s"

definition eventBlock :: "host \<Rightarrow> jsval \<Rightarrow> error + string" where
  "eventBlock h event =
     (if nullish event then Inl TypeError
      else
        bindE (if truthy (fld event ''type'')
               then bindE (ToString h (fld event ''type'')) (\<lambda>s. Inr (toUpperCase s))
               else Inr ''EVENT'') (\<lambda>eventType.
        cat [Inr ''- '', Inr (formatJobDate h (fld event ''date'')), Inr '' at '',
             tpl_or h (fld event ''startTime'') ''Time TBD'', Inr '': '', Inr eventType,
             Inr ''\<newline>'',
             Inr ''  Client: '', tpl_or h (fld event ''clientName'') ''Unknown Client'',
             Inr ''\<newline>'',
             Inr ''  Location: '', tpl_or h (fld event ''location'') ''Location TBD'',
             Inr ''\<newline>'',
             when_truthy (fld event ''dayRate'')
               [Inr ''  Day Rate: '', ToString h (fld event ''dayRate''), Inr '' '',
                tpl_or h (fld event ''currency'') ''USD'', Inr ''\<newline>''],
             when_truthy (fld event ''notes'')
               [Inr ''  Notes: '', ToString h (fld event ''notes''), Inr ''\<newline>''],
             Inr ''\<newline>'']))"

definition buildEventsSection :: "host \<Rightarrow> jsval \<Rightarrow> error + string" where
  "buildEventsSection h events =
     (if noRecords events then Inr ''EVENTS: No events found.''
      else
        bindE (cat [Inr ''EVENTS ('', ToString h (fld events ''length''), Inr '' total):\<newline>''])
          (\<lambda>header. bindE (slice0 20 events) (\<lambda>limitedEvents.
             forEach (append_block (eventBlock h)) header limitedEvents)))"

subsection \<open>\<^verbatim>\<open>_buildAiJobsSection\<close> (lines 230-255)\<close>

definition aiJobBlock :: "host \<Rightarrow> jsval \<Rightarrow> error + string" where
  "aiJobBlock h job =
     (if nullish job then Inl TypeError
      else
        bindE (if truthy (fld job ''rate'')
               then cat [ToString h (fld job ''rate''), Inr '' '',
                         tpl_or h (fld job ''currency'') ''USD'']
               else Inr ''Rate TBD'') (\<lambda>rate.
        cat [Inr ''- '', Inr (formatJobDate h (fld job ''date'')), Inr '': '',
             tpl_or h (fld job ''clientName'') ''Unknown Client'', Inr '' ('',
             tpl_or h (fld job ''type'') ''AI Job'', Inr '')\<newline>'',
             Inr ''  Rate: '', Inr rate, Inr '' | Status: '',
             tpl_or h (fld job ''status'') ''Unknown'', Inr '' | Payment: '',
             tpl_or h (fld job ''paymentStatus'') ''Unknown'', Inr ''\<newline>'',
             when_truthy (fld job ''location'')
               [Inr ''  Location: '', ToString h (fld job ''location''), Inr ''\<newline>''],
             Inr ''\<newline>'']))"

definition buildAiJobsSection :: "host \<Rightarrow> jsval \<Rightarrow> error + string" where
  "buildAiJobsSection h aiJobs =
     (if noRecords aiJobs then Inr ''AI JOBS: No AI jobs found.''
      else
        bindE (slice0 5 aiJobs) (\<lambda>limitedJobs.
          forEach (append_block (aiJobBlock h)) ''AI JOBS:\<newline>'' limitedJobs))"

subsection \<open>\<^verbatim>\<open>_buildAgenciesSection\<close> (lines 262-284)\<close>

definition agencyBlock :: "host \<Rightarrow> jsval \<Rightarrow> error + string" where
  "agencyBlock h agency =
     (if nullish agency then Inl TypeError
      else
        cat [Inr ''- '', tpl_or h (fld agency ''name'') ''Unknown Agency'', Inr ''\<newline>'',
             when_truthy (fld agency ''city'')
               [Inr ''  Location: '', city_country h agency, Inr ''\<newline>''],
             bindE (if truthy (fld agency ''commissionRate'')
                    then gt_zero h (fld agency ''commissionRate'') else Inr False) (\<lambda>c.
               if c then cat [Inr ''  Commission Rate: '',
                              ToString h (fld agency ''commissionRate''), Inr ''%\<newline>'']
               else Inr []),
             Inr ''\<newline>''])"

definition buildAgenciesSection :: "host \<Rightarrow> jsval \<Rightarrow> error + string" where
  "buildAgenciesSection h agencies =
     (if noRecords agencies then Inr ''AGENCIES: No agencies found.''
      else
        bindE (cat [Inr ''AGENCIES ('', ToString h (fld agencies ''length''),
                    Inr '' total):\<newline>''])
          (\<lambda>header. forEach (append_block (agencyBlock h)) header agencies))"

subsection \<open>\<^verbatim>\<open>_buildAgentsSection\<close> (lines 291-317)\<close>

definition agentBlock :: "host \<Rightarrow> jsval \<Rightarrow> error + string" where
  "agentBlock h agent =
     (if nullish agent then Inl TypeError
      else
        cat [Inr ''- '', tpl_or h (fld agent ''name'') ''Unknown Agent'', Inr ''\<newline>'',
             when_truthy (fld agent ''email'')
               [Inr ''  Email: '', ToString h (fld agent ''email''), Inr ''\<newline>''],
             when_truthy (fld agent ''phone'')
               [Inr ''  Phone: '', ToString h (fld agent ''phone''), Inr ''\<newline>''],
             when_truthy (fld agent ''city'')
               [Inr ''  Location: '', city_country h agent, Inr ''\<newline>''],
             Inr ''\<newline>''])"

definition buildAgentsSection :: "host \<Rightarrow> jsval \<Rightarrow> error + string" where
  "buildAgentsSection h agents =
     (if noRecords agents then Inr ''AGENTS: No agents found.''
      else
        bindE (cat [Inr ''AGENTS ('', ToString h (fld agents ''length''),
                    Inr '' total):\<newline>''])
          (\<lambda>header. forEach (append_block (agentBlock h)) header agents))"

subsection \<open>\<^verbatim>\<open>_buildMeetingsSection\<close> (lines 324-350)\<close>

definition meetingBlock :: "host \<Rightarrow> jsval \<Rightarrow> error + string" where
  "meetingBlock h meeting =
     (if nullish meeting then Inl TypeError
      else
        cat [Inr ''- '', Inr (formatJobDate h (fld meeting ''date'')), Inr '': '',
             tpl_or h (fld meeting ''clientName'') ''Unknown Client'', Inr ''\<newline>'',
             when_truthy (fld meeting ''time'')
               [Inr ''  Time: '', ToString h (fld meeting ''time''), Inr ''\<newline>''],
             when_truthy (fld meeting ''location'')
               [Inr ''  Location: '', ToString h (fld meeting ''location''), Inr ''\<newline>''],
             Inr ''\<newline>''])"

definition buildMeetingsSection :: "host \<Rightarrow> jsval \<Rightarrow> error + string" where
  "buildMeetingsSection h meetings =
     (if noRecords meetings then Inr ''MEETINGS: No meetings found.''
      else
        bindE (cat [Inr ''MEETINGS ('', ToString h (fld meetings ''length''),
                    Inr '' total):\<newline>''])
          (\<lambda>header. bindE (slice0 10 meetings) (\<lambda>limitedMeetings.
             forEach (append_block (meetingBlock h)) header limitedMeetings)))"

subsection \<open>\<^verbatim>\<open>_buildOnStaysSection\<close> (lines 357-383)\<close>

text \<open>\<^verbatim>\<open>this._formatDisplayDate(new Date(v))\<close>.\<close>

definition display_new_Date :: "host \<Rightarrow> jsval \<Rightarrow> error + string" where
  "display_new_Date h v = bindE (new_Date h v) (\<lambda>d. Inr (formatDisplayDate h (JDate d)))"

definition stayBlock :: "host \<Rightarrow> jsval \<Rightarrow> error + string" where
  "stayBlock h stay =
     (if nullish stay then Inl TypeError
      else
        cat [Inr ''- '', tpl_or h (fld stay ''locationName'') ''Unknown Location'', Inr ''\<newline>'',
             when_truthy (fld stay ''checkInDate'')
               [Inr ''  Check-in: '', display_new_Date h (fld stay ''checkInDate''),
                Inr ''\<newline>''],
             when_truthy (fld stay ''checkOutDate'')
               [Inr ''  Check-out: '', display_new_Date h (fld stay ''checkOutDate''),
                Inr ''\<newline>''],
             Inr ''  Cost: '', tpl_or h (fld stay ''cost'') ''TBD'', Inr '' '',
             tpl_or h (fld stay ''currency'') ''USD'', Inr ''\<newline>'',
             Inr ''\<newline>''])"

definition buildOnStaysSection :: "host \<Rightarrow> jsval \<Rightarrow> error + string" where
  "buildOnStaysSection h onStays =
     (if noRecords onStays then Inr ''ON STAYS: No stays found.''
      else
        bindE (cat [Inr ''ON STAYS ('', ToString h (fld onStays ''length''),
                    Inr '' total):\<newline>''])
          (\<lambda>header. bindE (slice0 10 onStays) (\<lambda>limitedStays.
             forEach (append_block (stayBlock h)) header limitedStays)))"

subsection \<open>\<^verbatim>\<open>_buildShootingsSection\<close> (lines 390-416)\<close>

definition shootingBlock :: "host \<Rightarrow> jsval \<Rightarrow> error + string" where
  "shootingBlock h shooting =
     (if nullish shooting then Inl TypeError
      else
        cat [Inr ''- '', Inr (formatJobDate h (fld shooting ''date'')), Inr '': '',
             tpl_or h (fld shooting ''clientName'') ''Unknown Client'', Inr ''\<newline>'',
             when_truthy (fld shooting ''location'')
               [Inr ''  Location: '', ToString h (fld shooting ''location''), Inr ''\<newline>''],
             when_truthy (fld shooting ''rate'')
               [Inr ''  Rate: '', ToString h (fld shooting ''rate''), Inr '' '',
                tpl_or h (fld shooting ''currency'') ''USD'', Inr ''\<newline>''],
             Inr ''\<newline>''])"

definition buildShootingsSection :: "host \<Rightarrow> jsval \<Rightarrow> error + string" where
  "buildShootingsSection h shootings =
     (if noRecords shootings then Inr ''SHOOTINGS: No shootings found.''
      else
        bindE (cat [Inr ''SHOOTINGS ('', ToString h (fld shootings ''length''),
                    Inr '' total):\<newline>''])
          (\<lambda>header. bindE (slice0 10 shootings) (\<lambda>limitedShootings.
             forEach (append_block (shootingBlock h)) header limitedShootings)))"

section \<open>Aggregator: \<^verbatim>\<open>_calculateStatistics\<close> (lines 424-493)\<close>

text \<open>A default parameter value replaces an undefined argument only.\<close>

definition default_arg :: "jsval \<Rightarrow> jsval \<Rightarrow> jsval" where
  "default_arg v d = (if v = JUndefined then d else v)"

record stats_acc =
  totalIncome :: jsnum
  st_upcomingJobs :: nat
  st_completedJobs :: nat

text \<open>The callback of the first loop (lines 432-449).\<close>

definition stats_step :: "host \<Rightarrow> int \<Rightarrow> stats_acc \<Rightarrow> jsval \<Rightarrow> error + stats_acc" where
  "stats_step h now a job =
     (if nullish job then Inl TypeError
      else
        bindE (if truthy (fld job ''rate'')
               then bindE (parseFloat h (fld job ''rate''))
                      (\<lambda>n. Inr (add_num (totalIncome a) (or_zero n)))
               else Inr (totalIncome a)) (\<lambda>total.
        if truthy (fld job ''date'') then
          (case new_Date h (fld job ''date'') of
             Inl e \<Rightarrow> Inr (a\<lparr>totalIncome := total\<rparr>)
           | Inr jobDate \<Rightarrow>
               if after jobDate now
               then Inr (a\<lparr>totalIncome := total, st_upcomingJobs := Suc (st_upcomingJobs a)\<rparr>)
               else Inr (a\<lparr>totalIncome := total, st_completedJobs := Suc (st_completedJobs a)\<rparr>))
        else Inr (a\<lparr>totalIncome := total\<rparr>)))"

text \<open>\<^verbatim>\<open>[...jobs, ...events]\<close>: an array spreads its elements, a string its characters;
  nothing else the bundle can hold is iterable.\<close>

definition spread :: "jsval \<Rightarrow> error + jsval list" where
  "spread v =
     (case v of
        JArr xs \<Rightarrow> Inr xs
      | JStr s \<Rightarrow> Inr (map (\<lambda>c. JStr [c]) s)
      | _ \<Rightarrow> Inl TypeError)"

text \<open>\<^verbatim>\<open>date.getFullYear()\<close> and \<^verbatim>\<open>date.getMonth()\<close>: NaN on an invalid date.\<close>

definition Date_getFullYear :: "host \<Rightarrow> int option \<Rightarrow> jsnum" where
  "Date_getFullYear h d = (case d of None \<Rightarrow> NaN | Some t \<Rightarrow> Fin (of_int (getFullYear h t)))"

definition Date_getMonth :: "host \<Rightarrow> int option \<Rightarrow> jsnum" where
  "Date_getMonth h d = (case d of None \<Rightarrow> NaN | Some t \<Rightarrow> Fin (of_int (getMonth h t)))"

definition padStart2 :: "string \<Rightarrow> string" where
  "padStart2 s = replicate (2 - length s) (CHR ''0'') @ s"

text \<open>The month key of line 464.\<close>

definition monthKey :: "host \<Rightarrow> int option \<Rightarrow> string" where
  "monthKey h date =
     Number_toString (Date_getFullYear h date) @ ''-''
     @ padStart2 (Number_toString (add_num (Date_getMonth h date) (Fin 1)))"

text \<open>\<^verbatim>\<open>eventsByMonth[k] = (eventsByMonth[k] || 0) + 1\<close> on an object whose keys keep
  their insertion order.\<close>

fun bump :: "(string \<times> nat) list \<Rightarrow> string \<Rightarrow> (string \<times> nat) list" where
  "bump [] k = [(k, 1)]"
| "bump ((k', c) # m) k = (if k' = k then (k', c + 1) # m else (k', c) # bump m k)"

text \<open>The callback of the second loop (lines 455-470): \<^verbatim>\<open>event.date\<close> is read outside
  the inner \<^verbatim>\<open>try\<close>, \<^verbatim>\<open>new Date\<close> inside it.\<close>

definition month_step ::
  "host \<Rightarrow> (string \<times> nat) list \<Rightarrow> jsval \<Rightarrow> error + (string \<times> nat) list" where
  "month_step h eventsByMonth event =
     (if nullish event then Inl TypeError
      else if truthy (fld event ''date'') then
        (case new_Date h (fld event ''date'') of
           Inl e \<Rightarrow> Inr eventsByMonth
         | Inr date \<Rightarrow> Inr (bump eventsByMonth (monthKey h date)))
      else Inr eventsByMonth)"

text \<open>\<^verbatim>\<open>Object.keys(eventsByMonth).sort().slice(-6)\<close>: the default sort compares strings
  by code units.\<close>

definition last6 :: "string list \<Rightarrow> string list" where
  "last6 ks = drop (length ks - 6) ks"

definition count_of :: "(string \<times> nat) list \<Rightarrow> string \<Rightarrow> nat" where
  "count_of eventsByMonth k = (case map_of eventsByMonth k of None \<Rightarrow> 0 | Some c \<Rightarrow> c)"

definition month_lines :: "(string \<times> nat) list \<Rightarrow> string" where
  "month_lines eventsByMonth =
     (if eventsByMonth = [] then []
      else ''- Activity by Month:\<newline>''
           @ concat (map (\<lambda>month. ''  '' @ month @ '': ''
                            @ dec (int (count_of eventsByMonth month)) @ '' events\<newline>'')
                       (last6 (sort (map fst eventsByMonth)))))"

text \<open>The body of the \<^verbatim>\<open>try\<close>, for the clock reading \<open>now\<close> of line 430.\<close>

definition stats_body :: "host \<Rightarrow> int \<Rightarrow> jsval \<Rightarrow> jsval \<Rightarrow> error + string" where
  "stats_body h now jobs events =
     bindE (forEach (stats_step h now)
              \<lparr>totalIncome = Fin 0, st_upcomingJobs = 0, st_completedJobs = 0\<rparr> jobs) (\<lambda>a.
     bindE (spread jobs) (\<lambda>js. bindE (spread events) (\<lambda>es.
     bindE (foldE (month_step h) [] (js @ es)) (\<lambda>eventsByMonth.
     cat [Inr ''STATISTICS:\<newline>'',
          Inr ''- Total Income: $'', Inr (toFixed2 (totalIncome a)), Inr '' USD\<newline>'',
          Inr ''- Total Jobs: '', ToString h (fld jobs ''length''), Inr ''\<newline>'',
          Inr ''- Upcoming Jobs: '', Inr (dec (int (st_upcomingJobs a))), Inr ''\<newline>'',
          Inr ''- Completed Jobs: '', Inr (dec (int (st_completedJobs a))), Inr ''\<newline>'',
          Inr ''- Total Events: '', ToString h (fld events ''length''), Inr ''\<newline>'',
          Inr (month_lines eventsByMonth)]))))"

definition calculateStatistics ::
  "host \<Rightarrow> (nat \<Rightarrow> int) \<Rightarrow> nat \<Rightarrow> jsval \<Rightarrow> jsval \<Rightarrow> string \<times> nat" where
  "calculateStatistics h clk k jobs events =
     (case stats_body h (clk k) (default_arg jobs (JArr [])) (default_arg events (JArr [])) of
        Inl e \<Rightarrow> ''STATISTICS: Error calculating statistics.''
      | Inr s \<Rightarrow> s,
      Suc k)"

section \<open>Calendar merger: \<^verbatim>\<open>_getCalendarSummary\<close> (lines 502-593)\<close>

record cal_item =
  ev_type :: string
  ev_title :: jsval
  ev_date :: int
  ev_time :: jsval
  ev_location :: jsval

text \<open>\<^verbatim>\<open>s.split('.').pop()\<close>: what follows the last dot.\<close>

definition after_last_dot :: "string \<Rightarrow> string" where
  "after_last_dot s = rev (takeWhile (\<lambda>c. c \<noteq> CHR ''.'') (rev s))"

text \<open>The three callbacks (lines 508-565). Each body is one \<^verbatim>\<open>try\<close> whose handler is
  empty, so an exception (a null element, a conversion that throws) pushes nothing and
  the callback itself never throws: it returns the list, extended or not.
  An invalid date is not later than \<open>now\<close>, so a pushed date has a time value.\<close>

definition push_if_upcoming ::
  "host \<Rightarrow> int \<Rightarrow> cal_item list \<Rightarrow> jsval \<Rightarrow> (int \<Rightarrow> error + cal_item) \<Rightarrow> cal_item list" where
  "push_if_upcoming h now upcomingEvents x mk =
     (if nullish x then upcomingEvents
      else if truthy (fld x ''date'') then
        (case new_Date h (fld x ''date'') of
           Inl e \<Rightarrow> upcomingEvents
         | Inr d \<Rightarrow>
             (case d of
                None \<Rightarrow> upcomingEvents
              | Some t \<Rightarrow>
                  if after (Some t) now then
                    (case mk t of Inl e \<Rightarrow> upcomingEvents | Inr item \<Rightarrow> upcomingEvents @ [item])
                  else upcomingEvents))
      else upcomingEvents)"

definition cal_job :: "host \<Rightarrow> int \<Rightarrow> cal_item list \<Rightarrow> jsval \<Rightarrow> cal_item list" where
  "cal_job h now upcomingEvents job =
     push_if_upcoming h now upcomingEvents job (\<lambda>jobDate.
       Inr \<lparr>ev_type = ''job'',
            ev_title = orElse (fld job ''clientName'') (JStr ''Unknown Client''),
            ev_date = jobDate,
            ev_time = orElse (fld job ''time'') (JStr []),
            ev_location = orElse (fld job ''location'') (JStr [])\<rparr>)"

definition cal_event :: "host \<Rightarrow> int \<Rightarrow> cal_item list \<Rightarrow> jsval \<Rightarrow> cal_item list" where
  "cal_event h now upcomingEvents event =
     push_if_upcoming h now upcomingEvents event (\<lambda>eventDate.
       bindE (if truthy (fld event ''type'')
              then bindE (ToString h (fld event ''type'')) (\<lambda>s. Inr (after_last_dot s))
              else Inr ''event'') (\<lambda>ty.
       Inr \<lparr>ev_type = ty,
            ev_title = orElse (fld event ''clientName'') (JStr ''Event''),
            ev_date = eventDate,
            ev_time = orElse (fld event ''startTime'') (JStr []),
            ev_location = orElse (fld event ''location'') (JStr [])\<rparr>))"

definition cal_meeting :: "host \<Rightarrow> int \<Rightarrow> cal_item list \<Rightarrow> jsval \<Rightarrow> cal_item list" where
  "cal_meeting h now upcomingEvents meeting =
     push_if_upcoming h now upcomingEvents meeting (\<lambda>meetingDate.
       Inr \<lparr>ev_type = ''meeting'',
            ev_title = orElse (fld meeting ''clientName'') (JStr ''Unknown Client''),
            ev_date = meetingDate,
            ev_time = orElse (fld meeting ''time'') (JStr []),
            ev_location = orElse (fld meeting ''location'') (JStr [])\<rparr>)"

text \<open>The block of one calendar entry (lines 576-586).\<close>

definition cal_block :: "host \<Rightarrow> cal_item \<Rightarrow> error + string" where
  "cal_block h event =
     cat [Inr ''- '', Inr (formatDisplayDate h (JDate (Some (ev_date event)))),
          if truthy (ev_time event) then cat [Inr '' at '', ToString h (ev_time event)] else Inr [],
          Inr '': '', Inr (toUpperCase (ev_type event)), Inr '' - '', ToString h (ev_title event),
          Inr ''\<newline>'',
          if truthy (ev_location event)
          then cat [Inr ''  Location: '', ToString h (ev_location event), Inr ''\<newline>'']
          else Inr [],
          Inr ''\<newline>'']"

fun cal_blocks :: "host \<Rightarrow> string \<Rightarrow> cal_item list \<Rightarrow> error + string" where
  "cal_blocks h s [] = Inr s"
| "cal_blocks h s (e # es) = bindE (cal_block h e) (\<lambda>b. cal_blocks h (s @ b) es)"

text \<open>The three loops in their order (lines 508-565).\<close>

definition collect_upcoming ::
  "host \<Rightarrow> int \<Rightarrow> jsval \<Rightarrow> jsval \<Rightarrow> jsval \<Rightarrow> error + cal_item list" where
  "collect_upcoming h now jobs events meetings =
     bindE (forEach (\<lambda>u x. Inr (cal_job h now u x)) [] jobs) (\<lambda>u1.
     bindE (forEach (\<lambda>u x. Inr (cal_event h now u x)) u1 events) (\<lambda>u2.
     forEach (\<lambda>u x. Inr (cal_meeting h now u x)) u2 meetings))"

text \<open>\<^verbatim>\<open>upcomingEvents.sort((a, b) => a.date - b.date).slice(0, 10)\<close>:
  \<^verbatim>\<open>Array.prototype.sort\<close> is stable, as insertion by key is.\<close>

definition topEvents :: "cal_item list \<Rightarrow> cal_item list" where
  "topEvents upcomingEvents = take 10 (sort_key ev_date upcomingEvents)"

text \<open>The body of the \<^verbatim>\<open>try\<close>, for the clock reading \<open>now\<close> of line 505.\<close>

definition calendar_body :: "host \<Rightarrow> int \<Rightarrow> jsval \<Rightarrow> jsval \<Rightarrow> jsval \<Rightarrow> error + string" where
  "calendar_body h now jobs events meetings =
     bindE (collect_upcoming h now jobs events meetings) (\<lambda>upcomingEvents.
       let top = topEvents upcomingEvents
       in if length top = 0 then Inr ''UPCOMING CALENDAR: No upcoming events scheduled.''
          else cal_blocks h
                 (''UPCOMING CALENDAR (Next '' @ dec (int (length top)) @ '' Events):\<newline>'') top)"

definition getCalendarSummary ::
  "host \<Rightarrow> (nat \<Rightarrow> int) \<Rightarrow> nat \<Rightarrow> jsval \<Rightarrow> jsval \<Rightarrow> jsval \<Rightarrow> string \<times> nat" where
  "getCalendarSummary h clk k jobs events meetings =
     (case calendar_body h (clk k) (default_arg jobs (JArr [])) (default_arg events (JArr []))
             (default_arg meetings (JArr [])) of
        Inl e \<Rightarrow> ''UPCOMING CALENDAR: Error loading calendar data.''
      | Inr s \<Rightarrow> s,
      Suc k)"

section \<open>Context assembler: \<^verbatim>\<open>buildUserContext\<close> (lines 12-102)\<close>

text \<open>The template literal of lines 47-94.\<close>

type_synonym section_text = string

definition context_template ::
  "section_text \<Rightarrow> section_text \<Rightarrow> section_text \<Rightarrow> section_text \<Rightarrow> section_text
   \<Rightarrow> section_text \<Rightarrow> section_text \<Rightarrow> section_text \<Rightarrow> section_text \<Rightarrow> section_text
   \<Rightarrow> section_text \<Rightarrow> section_text \<Rightarrow> section_text \<Rightarrow> string" where
  "context_template userProfileSection jobsSection eventsSection aiJobsSection agenciesSection
     agentsSection meetingsSection onStaysSection shootingsSection statistics calendarSummary
     currentDate currentTime =
       ''\<newline>''
       @ ''You are an AI assistant for a modeling professional using Model Day. You have access to ONLY their data and can help analyze it and provide insights.\<newline>''
       @ ''\<newline>''
       @ ''CURRENT USER DATA CONTEXT:\<newline>''
       @ userProfileSection
       @ ''\<newline>''
       @ ''\<newline>''
       @ ''JOBS DATA:\<newline>''
       @ jobsSection
       @ ''\<newline>''
       @ ''\<newline>''
       @ ''EVENTS DATA:\<newline>''
       @ eventsSection
       @ ''\<newline>''
       @ ''\<newline>''
       @ ''AI JOBS DATA:\<newline>''
       @ aiJobsSection
       @ ''\<newline>''
       @ ''\<newline>''
       @ ''AGENCIES DATA:\<newline>''
       @ agenciesSection
       @ ''\<newline>''
       @ ''\<newline>''
       @ ''AGENTS DATA:\<newline>''
       @ agentsSection
       @ ''\<newline>''
       @ ''\<newline>''
       @ ''MEETINGS DATA:\<newline>''
       @ meetingsSection
       @ ''\<newline>''
       @ ''\<newline>''
       @ ''ON STAYS DATA:\<newline>''
       @ onStaysSection
       @ ''\<newline>''
       @ ''\<newline>''
       @ ''SHOOTINGS DATA:\<newline>''
       @ shootingsSection
       @ ''\<newline>''
       @ ''\<newline>''
       @ ''STATISTICS:\<newline>''
       @ statistics
       @ ''\<newline>''
       @ ''\<newline>''
       @ ''UPCOMING CALENDAR (Next 10 Events):\<newline>''
       @ calendarSummary
       @ ''\<newline>''
       @ ''\<newline>''
       @ ''Current Date: ''
       @ currentDate
       @ ''\<newline>''
       @ ''Current Time: ''
       @ currentTime
       @ ''\<newline>''
       @ ''\<newline>''
       @ ''Provide helpful, professional responses based on the actual data. Consider:\<newline>''
       @ ''1. Financial insights: Total earnings, booking rates, job trends\<newline>''
       @ ''2. Calendar management: Upcoming events, schedule conflicts, busy periods\<newline>''
       @ ''3. Career development: Patterns in castings, successful job types, agent relationships\<newline>''
       @ ''4. Network analysis: Industry contacts, agency relationships\<newline>''
       @ ''5. Activity trends: Monthly or seasonal patterns in bookings and events\<newline>''
       @ ''\<newline>''
       @ ''If calculating totals or analyzing trends, show actual numbers. If asked about something not in the data, let them know politely. Maintain a friendly, professional tone.\<newline>''"

text \<open>A property of the destructuring pattern of lines 19-29, with its default.\<close>

definition pick :: "jsval \<Rightarrow> string \<Rightarrow> jsval \<Rightarrow> jsval" where
  "pick safeUserData k d = default_arg (fld safeUserData k) d"

text \<open>The body of the outer \<^verbatim>\<open>try\<close>: the nine formatters in their order, each exception
  leaving the block; then the aggregator and the calendar merger, which catch their own;
  then two more readings of the clock for the date and time lines.\<close>

definition build_context :: "host \<Rightarrow> (nat \<Rightarrow> int) \<Rightarrow> jsval \<Rightarrow> error + string" where
  "build_context h clk userData =
     (let safeUserData = orElse (default_arg userData (JObj [])) (JObj []);
          userProfile = pick safeUserData ''userProfile'' (JObj []);
          jobs = pick safeUserData ''jobs'' (JArr []);
          events = pick safeUserData ''events'' (JArr []);
          aiJobs = pick safeUserData ''aiJobs'' (JArr []);
          agencies = pick safeUserData ''agencies'' (JArr []);
          agents = pick safeUserData ''agents'' (JArr []);
          meetings = pick safeUserData ''meetings'' (JArr []);
          onStays = pick safeUserData ''onStays'' (JArr []);
          shootings = pick safeUserData ''shootings'' (JArr [])
      in bindE (buildUserProfileSection h userProfile) (\<lambda>userProfileSection.
         let (r, k1) = buildJobsSection h clk 0 jobs in
         bindE r (\<lambda>jobsSection.
         bindE (buildEventsSection h events) (\<lambda>eventsSection.
         bindE (buildAiJobsSection h aiJobs) (\<lambda>aiJobsSection.
         bindE (buildAgenciesSection h agencies) (\<lambda>agenciesSection.
         bindE (buildAgentsSection h agents) (\<lambda>agentsSection.
         bindE (buildMeetingsSection h meetings) (\<lambda>meetingsSection.
         bindE (buildOnStaysSection h onStays) (\<lambda>onStaysSection.
         bindE (buildShootingsSection h shootings) (\<lambda>shootingsSection.
         let (statistics, k2) = calculateStatistics h clk k1 jobs events;
             (calendarSummary, k3) = getCalendarSummary h clk k2 jobs events meetings
         in Inr (context_template userProfileSection jobsSection eventsSection aiJobsSection
                   agenciesSection agentsSection meetingsSection onStaysSection shootingsSection
                   statistics calendarSummary
                   (formatDisplayDate h (JDate (Some (clk k3))))
                   (formatTime h (JDate (Some (clk (Suc k3))))))))))))))))"

definition buildUserContext :: "host \<Rightarrow> (nat \<Rightarrow> int) \<Rightarrow> jsval \<Rightarrow> string" where
  "buildUserContext h clk userData =
     (case build_context h clk userData of
        Inl e \<Rightarrow> ''Error gathering user data. Please try again.''
      | Inr context \<Rightarrow> context)"

section \<open>A host: the UTC time zone, ISO dates only\<close>

text \<open>
  One conforming host, to run the service on concrete bundles: the process's time zone
  is UTC, \<^verbatim>\<open>Date.parse\<close> reads the ISO format (\<^verbatim>\<open>YYYY-MM-DD\<close>, optionally followed by
  \<^verbatim>\<open>THH:mm\<close>, \<^verbatim>\<open>:ss\<close>, \<^verbatim>\<open>.sss\<close> and \<^verbatim>\<open>Z\<close>) and answers NaN on anything else, which the
  standard allows.
\<close>

definition days_from_civil :: "int \<Rightarrow> int \<Rightarrow> int \<Rightarrow> int" where
  "days_from_civil y m d =
     (let y' = (if m \<le> 2 then y - 1 else y);
          era = y' div 400;
          yoe = y' - era * 400;
          doy = (153 * (if 2 < m then m - 3 else m + 9) + 2) div 5 + d - 1;
          doe = yoe * 365 + yoe div 4 - yoe div 100 + doy
      in era * 146097 + doe - 719468)"

text \<open>Year, month (1 to 12) and day of the month of a day number counted from the epoch.\<close>

definition civil_from_days :: "int \<Rightarrow> int \<times> int \<times> int" where
  "civil_from_days z0 =
     (let z = z0 + 719468;
          era = z div 146097;
          doe = z - era * 146097;
          yoe = (doe - doe div 1460 + doe div 36524 - doe div 146096) div 365;
          doy = doe - (365 * yoe + yoe div 4 - yoe div 100);
          mp = (5 * doy + 2) div 153;
          d = doy - (153 * mp + 2) div 5 + 1;
          m = (if mp < 10 then mp + 3 else mp - 9)
      in (if m \<le> 2 then yoe + era * 400 + 1 else yoe + era * 400, m, d))"

definition days_in_month :: "int \<Rightarrow> int \<Rightarrow> int" where
  "days_in_month y m =
     (if m = 2 then (if y mod 4 = 0 \<and> (y mod 100 \<noteq> 0 \<or> y mod 400 = 0) then 29 else 28)
      else if m = 4 \<or> m = 6 \<or> m = 9 \<or> m = 11 then 30 else 31)"

definition all_digits :: "string \<Rightarrow> bool" where
  "all_digits s = list_all is_digit s"

text \<open>The time of day after the date, in milliseconds.\<close>

definition iso_time :: "string \<Rightarrow> int option" where
  "iso_time s =
     (if s = [] then Some 0
      else
        let hh = take 2 (drop 1 s); mm = take 2 (drop 4 s); r = drop 6 s;
            ss = (if take 1 r = '':'' then take 2 (drop 1 r) else ''00'');
            r1 = (if take 1 r = '':'' then drop 3 r else r);
            ms = (if take 1 r1 = ''.'' then take 3 (drop 1 r1) else ''000'');
            r2 = (if take 1 r1 = ''.'' then drop 4 r1 else r1)
        in if take 1 s = ''T'' \<and> length hh = 2 \<and> all_digits hh \<and> take 1 (drop 3 s) = '':''
              \<and> length mm = 2 \<and> all_digits mm \<and> length ss = 2 \<and> all_digits ss
              \<and> length ms = 3 \<and> all_digits ms \<and> (r2 = [] \<or> r2 = ''Z'')
              \<and> digits_val hh < 24 \<and> digits_val mm < 60 \<and> digits_val ss < 60
           then Some (((digits_val hh * 60 + digits_val mm) * 60 + digits_val ss) * 1000
                      + digits_val ms)
           else None)"

definition iso_parse :: "string \<Rightarrow> int option" where
  "iso_parse s =
     (let ys = take 4 s; ms = take 2 (drop 5 s); ds = take 2 (drop 8 s);
          y = digits_val ys; m = digits_val ms; d = digits_val ds
      in if length ys = 4 \<and> all_digits ys \<and> take 1 (drop 4 s) = ''-''
            \<and> length ms = 2 \<and> all_digits ms \<and> take 1 (drop 7 s) = ''-''
            \<and> length ds = 2 \<and> all_digits ds
            \<and> 1 \<le> m \<and> m \<le> 12 \<and> 1 \<le> d \<and> d \<le> days_in_month y m
         then (case iso_time (drop 10 s) of
                 None \<Rightarrow> None
               | Some t \<Rightarrow> Some (days_from_civil y m d * 86400000 + t))
         else None)"

definition weekday_names :: "string list" where
  "weekday_names =
     [''Sunday'', ''Monday'', ''Tuesday'', ''Wednesday'', ''Thursday'', ''Friday'', ''Saturday'']"

definition month_names :: "string list" where
  "month_names =
     [''January'', ''February'', ''March'', ''April'', ''May'', ''June'', ''July'', ''August'',
      ''September'', ''October'', ''November'', ''December'']"

text \<open>\<^verbatim>\<open>toLocaleDateString('en-US', {weekday: 'long', year: 'numeric', month: 'long',
  day: 'numeric'})\<close> in UTC.\<close>

definition utc_date_string :: "int \<Rightarrow> string" where
  "utc_date_string t =
     (let day = t div 86400000;
          (y, m, d) = civil_from_days day
      in weekday_names ! nat ((day + 4) mod 7) @ '', '' @ month_names ! nat (m - 1) @ '' ''
         @ int_str d @ '', '' @ int_str y)"

text \<open>\<^verbatim>\<open>toLocaleTimeString('en-US', {hour: '2-digit', minute: '2-digit', hour12: false})\<close>
  in UTC.\<close>

definition utc_time_string :: "int \<Rightarrow> string" where
  "utc_time_string t =
     (let minutes = (t mod 86400000) div 60000
      in padStart2 (int_str (minutes div 60)) @ '':'' @ padStart2 (int_str (minutes mod 60)))"

text \<open>\<^verbatim>\<open>Date.prototype.toString\<close> in UTC.\<close>

definition utc_toString :: "int \<Rightarrow> string" where
  "utc_toString t =
     (let day = t div 86400000;
          (y, m, d) = civil_from_days day;
          secs = (t mod 86400000) div 1000
      in take 3 (weekday_names ! nat ((day + 4) mod 7)) @ '' ''
         @ take 3 (month_names ! nat (m - 1)) @ '' '' @ padStart2 (int_str d) @ '' ''
         @ int_str y @ '' '' @ padStart2 (int_str (secs div 3600)) @ '':''
         @ padStart2 (int_str ((secs div 60) mod 60)) @ '':'' @ padStart2 (int_str (secs mod 60))
         @ '' GMT+0000 (Coordinated Universal Time)'')"

definition utc_host :: host where
  "utc_host =
     \<lparr>Date_parse = iso_parse,
      Date_toString = utc_toString,
      toLocaleDateString = utc_date_string,
      toLocaleTimeString = utc_time_string,
      getFullYear = (\<lambda>t. fst (civil_from_days (t div 86400000))),
      getMonth = (\<lambda>t. fst (snd (civil_from_days (t div 86400000))) - 1)\<rparr>"

section \<open>Notions used in the statements\<close>

text \<open>A clock that always reads \<open>t\<close>, and one that reads \<open>t\<close> for its first \<open>n\<close>
  readings and \<open>t'\<close> afterwards.\<close>

definition const_clock :: "int \<Rightarrow> nat \<Rightarrow> int" where
  "const_clock t k = t"

definition step_clock :: "int \<Rightarrow> nat \<Rightarrow> int \<Rightarrow> nat \<Rightarrow> int" where
  "step_clock t n t' k = (if k < n then t else t')"

text \<open>The data model: a record is an object whose fields hold primitive values
  (strings, numbers, booleans, null) or are absent.\<close>

definition json_primitive :: "jsval \<Rightarrow> bool" where
  "json_primitive v =
     (case v of JArr xs \<Rightarrow> False | JObj kvs \<Rightarrow> False | JDate d \<Rightarrow> False | _ \<Rightarrow> True)"

definition plain_record :: "jsval \<Rightarrow> bool" where
  "plain_record x =
     (case x of JObj kvs \<Rightarrow> list_all (\<lambda>kv. json_primitive (snd kv)) kvs | _ \<Rightarrow> False)"

text \<open>The length of a collection as a template literal prints it.\<close>

definition count_str :: "'a list \<Rightarrow> string" where
  "count_str xs = Number_toString (Fin (of_nat (length xs)))"

text \<open>The three figures of the jobs summary and of the statistics agree.\<close>

definition same_figures :: "jobs_acc \<Rightarrow> stats_acc \<Rightarrow> bool" where
  "same_figures a b =
     (totalIncome b = totalEarnings a \<and> st_upcomingJobs b = upcomingJobs a
      \<and> st_completedJobs b = completedJobs a)"



text \<open>Modelled on the spec's words: the "parsed date" of a record when it is "strictly
  greater than now"; none for a record whose date is absent, unparseable or not later
  than now.\<close>

definition spec_upcoming_date :: "host \<Rightarrow> int \<Rightarrow> jsval \<Rightarrow> int option" where
  "spec_upcoming_date h now x =
     (if nullish x \<or> \<not> truthy (fld x ''date'') then None
      else case new_Date h (fld x ''date'') of
             Inl e \<Rightarrow> None
           | Inr None \<Rightarrow> None
           | Inr (Some t) \<Rightarrow> if now < t then Some t else None)"

text \<open>Sample records: a job with a rate only, a record with a date only, a record with a
  client and a date.\<close>

definition rate_job :: "rat \<Rightarrow> jsval" where
  "rate_job r = JObj [(''rate'', JNum (Fin r))]"

definition dated :: "string \<Rightarrow> jsval" where
  "dated d = JObj [(''date'', JStr d)]"

definition booking :: "string \<Rightarrow> string \<Rightarrow> jsval" where
  "booking c d = JObj [(''clientName'', JStr c), (''date'', JStr d)]"

text \<open>A calendar entry without time and location.\<close>

definition entry :: "string \<Rightarrow> string \<Rightarrow> int \<Rightarrow> cal_item" where
  "entry ty c t =
     \<lparr>ev_type = ty, ev_title = JStr c, ev_date = t, ev_time = JStr [], ev_location = JStr []\<rparr>"

section \<open>Basic facts\<close>

lemma bindE_Inr [simp]: "bindE (Inr x) f = f x"
  by (simp add: bindE_def)

lemma bindE_Inl [simp]: "bindE (Inl e) f = Inl e"
  by (simp add: bindE_def)

lemma isl_bindE: "isl (bindE m f) = (isl m \<or> isl (f (projr m)))"
  by (cases m) simp_all

lemma isl_cat_Cons: "isl (cat (p # ps)) = (isl p \<or> isl (cat ps))"
  by (cases p; cases "cat ps") simp_all

lemma isl_cat_Nil: "\<not> isl (cat [])"
  by simp

lemma dec_0 [simp]: "dec 0 = ''0''"
  by (simp add: dec.simps)

lemma toFixed2_0 [simp]: "toFixed2 (Fin 0) = ''0.00''"
  by code_simp

lemma add_num_zero [simp]: "add_num t (Fin 0) = t"
  by (cases t) simp_all

lemma parseFloat_true [simp]: "parseFloat_str ''true'' = NaN"
  by code_simp

lemma parseFloat_empty [simp]: "parseFloat_str [] = NaN"
  by code_simp

lemma default_arg_pick [simp]:
  "d \<noteq> JUndefined \<Longrightarrow> default_arg (pick s k d) d' = pick s k d"
  by (simp add: default_arg_def pick_def)

lemma noRecords_array [simp]: "noRecords (JArr xs) = (xs = [])"
  by (simp add: noRecords_def)

lemma forEach_Inr_array:
  "forEach f a xs = Inr r \<Longrightarrow> \<exists>ys. xs = JArr ys \<and> foldE f a ys = Inr r"
  by (cases xs) (simp_all add: forEach_def)

subsection \<open>Decimal digits\<close>



lemma dec_times10: "0 < s \<Longrightarrow> dec (s * 10) = dec s @ ''0''"
  by (subst dec.simps) simp

lemma strip0_dec:
  "0 < s \<Longrightarrow> strip0 s z = (s', z') \<Longrightarrow>
     z \<le> z' \<and> dec s = dec s' @ replicate (nat (z' - z)) (CHR ''0'')"
proof (induction s z rule: strip0.induct)
  case (1 s z)
  show ?case
  proof (cases "s mod 10 = 0")
    case True
    with 1(2) have p: "0 < s div 10" by presburger
    from True 1(2,3) have r: "strip0 (s div 10) (z + 1) = (s', z')"
      by (simp add: strip0.simps [of s z])
    from True 1(2) have "0 < s \<and> s mod 10 = 0" by simp
    from 1(1) [OF this p r]
    have i: "z + 1 \<le> z'" "dec (s div 10) = dec s' @ replicate (nat (z' - (z + 1))) (CHR ''0'')"
      by simp_all
    from True have "s = (s div 10) * 10" by presburger
    then have "dec s = dec (s div 10) @ ''0''" using dec_times10 [OF p] by simp
    also have "\<dots> = dec s' @ replicate (nat (z' - (z + 1))) (CHR ''0'') @ ''0''" using i by simp
    also have "replicate (nat (z' - (z + 1))) (CHR ''0'') @ ''0''
        = replicate (Suc (nat (z' - (z + 1)))) (CHR ''0'')"
      by (simp add: replicate_append_same)
    also have "Suc (nat (z' - (z + 1))) = nat (z' - z)" using i(1) by simp
    finally show ?thesis using i(1) by simp
  next
    case False
    with 1(3) show ?thesis by (simp add: strip0.simps [of s z])
  qed
qed

lemma dec_length: "0 \<le> n \<Longrightarrow> 0 < d \<Longrightarrow> n < 10 ^ d \<Longrightarrow> length (dec n) \<le> d"
proof (induction n arbitrary: d rule: dec.induct)
  case (1 n)
  show ?case
  proof (cases "n < 10")
    case True
    with 1(3) show ?thesis by (simp add: dec.simps [of n])
  next
    case False
    from 1(3) obtain d' where d: "d = Suc d'" by (cases d) auto
    have "0 < d'"
    proof (rule ccontr)
      assume "\<not> 0 < d'"
      with d 1(4) False show False by simp
    qed
    moreover from d 1(4) have "n div 10 < 10 ^ d'" by simp
    moreover from 1(2) have "0 \<le> n div 10" by simp
    ultimately have "length (dec (n div 10)) \<le> d'" using 1(1) [OF False] by blast
    with False d show ?thesis by (simp add: dec.simps [of n])
  qed
qed

text \<open>A count below \<open>10^21\<close> prints as its decimal digits.\<close>

lemma count_decimal:
  assumes "n < 10 ^ 21"
  shows "Number_toString (Fin (of_nat n)) = dec (int n)"
proof (cases "n = 0")
  case True
  then show ?thesis by simp
next
  case False
  then have p: "0 < int n" by simp
  obtain s' z' where st: "strip0 (int n) 0 = (s', z')" by (cases "strip0 (int n) 0")
  from strip0_dec [OF p st] have z: "0 \<le> z'"
    and d: "dec (int n) = dec s' @ replicate (nat z') (CHR ''0'')" by simp_all
  from assms have "int n < int (10 ^ 21)" by (simp only: of_nat_less_iff)
  then have "int n < 10 ^ 21" by (simp only: of_nat_power of_nat_numeral)
  with dec_length [of "int n" 21] have "length (dec (int n)) \<le> 21" by simp
  with d have l: "int (length (dec s')) + z' \<le> 21" using z by simp
  have i: "is_int (of_nat n)" by (simp add: is_int_def)
  have "pos_str (of_nat n) = dec (int n)"
    using st d l z i by (simp add: pos_str_def shift10.simps Let_def)
  with False show ?thesis by simp
qed

text \<open>An array holds fewer than \<open>2^32\<close> elements.\<close>

lemma count_str_dec: "length xs < 2 ^ 32 \<Longrightarrow> count_str xs = dec (int (length xs))"
proof -
  assume "length xs < 2 ^ 32"
  moreover have "(2::nat) ^ 32 < 10 ^ 21" by simp
  ultimately have "length xs < 10 ^ 21" by (rule less_trans)
  then show ?thesis unfolding count_str_def by (rule count_decimal)
qed

section \<open>Empty input\<close>

text \<open>
  Claim C3. Every section formatter, given an empty collection (the profile formatter:
  an object without properties), returns exactly its one "nothing found" sentence: no
  header line and no block. The jobs formatter does not read the clock in that case.
\<close>

theorem empty_collection_sentence:
  "buildUserProfileSection h (JObj []) = Inr ''USER PROFILE: Profile not found.''
   \<and> buildJobsSection h clk k (JArr []) = (Inr ''JOBS: No jobs found.'', k)
   \<and> buildEventsSection h (JArr []) = Inr ''EVENTS: No events found.''
   \<and> buildAiJobsSection h (JArr []) = Inr ''AI JOBS: No AI jobs found.''
   \<and> buildAgenciesSection h (JArr []) = Inr ''AGENCIES: No agencies found.''
   \<and> buildAgentsSection h (JArr []) = Inr ''AGENTS: No agents found.''
   \<and> buildMeetingsSection h (JArr []) = Inr ''MEETINGS: No meetings found.''
   \<and> buildOnStaysSection h (JArr []) = Inr ''ON STAYS: No stays found.''
   \<and> buildShootingsSection h (JArr []) = Inr ''SHOOTINGS: No shootings found.''"
  by (simp add: buildUserProfileSection_def buildJobsSection_def buildEventsSection_def
      buildAiJobsSection_def buildAgenciesSection_def buildAgentsSection_def
      buildMeetingsSection_def buildOnStaysSection_def buildShootingsSection_def no_keys_def)

text \<open>Claim C3 on the UTC host, with a clock that reads 0.\<close>

theorem empty_collection_sentence_witness:
  "buildUserProfileSection utc_host (JObj []) = Inr ''USER PROFILE: Profile not found.''
   \<and> buildJobsSection utc_host (const_clock 0) 0 (JArr []) = (Inr ''JOBS: No jobs found.'', 0)
   \<and> buildEventsSection utc_host (JArr []) = Inr ''EVENTS: No events found.''
   \<and> buildAiJobsSection utc_host (JArr []) = Inr ''AI JOBS: No AI jobs found.''
   \<and> buildAgenciesSection utc_host (JArr []) = Inr ''AGENCIES: No agencies found.''
   \<and> buildAgentsSection utc_host (JArr []) = Inr ''AGENTS: No agents found.''
   \<and> buildMeetingsSection utc_host (JArr []) = Inr ''MEETINGS: No meetings found.''
   \<and> buildOnStaysSection utc_host (JArr []) = Inr ''ON STAYS: No stays found.''
   \<and> buildShootingsSection utc_host (JArr []) = Inr ''SHOOTINGS: No shootings found.''"
  by (rule empty_collection_sentence)

lemma sections_of_nothing:
  "buildUserProfileSection h (JObj []) = Inr ''USER PROFILE: Profile not found.''"
  "buildJobsSection h clk k (JArr []) = (Inr ''JOBS: No jobs found.'', k)"
  "buildEventsSection h (JArr []) = Inr ''EVENTS: No events found.''"
  "buildAiJobsSection h (JArr []) = Inr ''AI JOBS: No AI jobs found.''"
  "buildAgenciesSection h (JArr []) = Inr ''AGENCIES: No agencies found.''"
  "buildAgentsSection h (JArr []) = Inr ''AGENTS: No agents found.''"
  "buildMeetingsSection h (JArr []) = Inr ''MEETINGS: No meetings found.''"
  "buildOnStaysSection h (JArr []) = Inr ''ON STAYS: No stays found.''"
  "buildShootingsSection h (JArr []) = Inr ''SHOOTINGS: No shootings found.''"
  by (simp_all add: buildUserProfileSection_def buildJobsSection_def buildEventsSection_def
      buildAiJobsSection_def buildAgenciesSection_def buildAgentsSection_def
      buildMeetingsSection_def buildOnStaysSection_def buildShootingsSection_def no_keys_def)

lemma statistics_of_nothing:
  "calculateStatistics h clk k (JArr []) (JArr []) =
     (''STATISTICS:\<newline>- Total Income: $0.00 USD\<newline>- Total Jobs: 0\<newline>''
      @ ''- Upcoming Jobs: 0\<newline>- Completed Jobs: 0\<newline>- Total Events: 0\<newline>'', Suc k)"
  by (simp add: calculateStatistics_def stats_body_def default_arg_def forEach_def spread_def
      month_lines_def)

lemma calendar_of_nothing:
  "getCalendarSummary h clk k (JArr []) (JArr []) (JArr []) =
     (''UPCOMING CALENDAR: No upcoming events scheduled.'', Suc k)"
  by (simp add: getCalendarSummary_def calendar_body_def collect_upcoming_def default_arg_def
      forEach_def topEvents_def)

lemma sublist_skip: "sublist l r \<Longrightarrow> sublist l (p @ r)"
  by (metis sublist_append)

lemma sublist_hit: "prefix l p \<Longrightarrow> sublist l (p @ r)"
  by (meson prefix_imp_sublist sublist_append)

text \<open>The nine labels are part of the template, whatever the sections are.\<close>

lemma template_labels:
  "sublist ''JOBS DATA:'' (context_template a b c d e f g i j k l m n)"
  "sublist ''EVENTS DATA:'' (context_template a b c d e f g i j k l m n)"
  "sublist ''AI JOBS DATA:'' (context_template a b c d e f g i j k l m n)"
  "sublist ''AGENCIES DATA:'' (context_template a b c d e f g i j k l m n)"
  "sublist ''AGENTS DATA:'' (context_template a b c d e f g i j k l m n)"
  "sublist ''MEETINGS DATA:'' (context_template a b c d e f g i j k l m n)"
  "sublist ''ON STAYS DATA:'' (context_template a b c d e f g i j k l m n)"
  "sublist ''SHOOTINGS DATA:'' (context_template a b c d e f g i j k l m n)"
  "sublist ''STATISTICS:'' (context_template a b c d e f g i j k l m n)"
  unfolding context_template_def
  by (((rule sublist_hit, (simp; fail)) | rule sublist_skip)+)

lemma template_nonempty: "context_template a b c d e f g i j k l m n \<noteq> []"
  by (simp add: context_template_def)

lemma build_context_falsy:
  "\<not> truthy u \<Longrightarrow> build_context h clk u =
     Inr (context_template ''USER PROFILE: Profile not found.'' ''JOBS: No jobs found.''
       ''EVENTS: No events found.'' ''AI JOBS: No AI jobs found.'' ''AGENCIES: No agencies found.''
       ''AGENTS: No agents found.'' ''MEETINGS: No meetings found.'' ''ON STAYS: No stays found.''
       ''SHOOTINGS: No shootings found.''
       (''STATISTICS:\<newline>- Total Income: $0.00 USD\<newline>- Total Jobs: 0\<newline>''
        @ ''- Upcoming Jobs: 0\<newline>- Completed Jobs: 0\<newline>- Total Events: 0\<newline>'')
       ''UPCOMING CALENDAR: No upcoming events scheduled.''
       (toLocaleDateString h (clk 2)) (toLocaleTimeString h (clk 3)))"
  by (simp add: build_context_def orElse_def default_arg_def pick_def sections_of_nothing
      statistics_of_nothing calendar_of_nothing formatDisplayDate_def formatTime_def
      numeral_2_eq_2 numeral_3_eq_3)

text \<open>
  Claim C2. For the bundle \<^verbatim>\<open>null\<close>, and for an absent (undefined) one, the outer
  \<^verbatim>\<open>try\<close> block completes (no exception reaches its handler) and \<^verbatim>\<open>buildUserContext\<close>
  returns the skeleton in which every section is its "nothing found" sentence. The
  result is not empty and contains the nine labels \<^verbatim>\<open>JOBS DATA:\<close>, \<^verbatim>\<open>EVENTS DATA:\<close>,
  \<^verbatim>\<open>AI JOBS DATA:\<close>, \<^verbatim>\<open>AGENCIES DATA:\<close>, \<^verbatim>\<open>AGENTS DATA:\<close>, \<^verbatim>\<open>MEETINGS DATA:\<close>,
  \<^verbatim>\<open>ON STAYS DATA:\<close>, \<^verbatim>\<open>SHOOTINGS DATA:\<close> and \<^verbatim>\<open>STATISTICS:\<close>.
\<close>

theorem null_bundle_skeleton:
  "buildUserContext h clk JNull =
     context_template ''USER PROFILE: Profile not found.'' ''JOBS: No jobs found.''
       ''EVENTS: No events found.'' ''AI JOBS: No AI jobs found.'' ''AGENCIES: No agencies found.''
       ''AGENTS: No agents found.'' ''MEETINGS: No meetings found.'' ''ON STAYS: No stays found.''
       ''SHOOTINGS: No shootings found.''
       (''STATISTICS:\<newline>- Total Income: $0.00 USD\<newline>- Total Jobs: 0\<newline>''
        @ ''- Upcoming Jobs: 0\<newline>- Completed Jobs: 0\<newline>- Total Events: 0\<newline>'')
       ''UPCOMING CALENDAR: No upcoming events scheduled.''
       (toLocaleDateString h (clk 2)) (toLocaleTimeString h (clk 3))
   \<and> buildUserContext h clk JUndefined = buildUserContext h clk JNull
   \<and> build_context h clk JNull = Inr (buildUserContext h clk JNull)
   \<and> build_context h clk JUndefined = Inr (buildUserContext h clk JUndefined)
   \<and> buildUserContext h clk JNull \<noteq> []
   \<and> sublist ''JOBS DATA:'' (buildUserContext h clk JNull)
   \<and> sublist ''EVENTS DATA:'' (buildUserContext h clk JNull)
   \<and> sublist ''AI JOBS DATA:'' (buildUserContext h clk JNull)
   \<and> sublist ''AGENCIES DATA:'' (buildUserContext h clk JNull)
   \<and> sublist ''AGENTS DATA:'' (buildUserContext h clk JNull)
   \<and> sublist ''MEETINGS DATA:'' (buildUserContext h clk JNull)
   \<and> sublist ''ON STAYS DATA:'' (buildUserContext h clk JNull)
   \<and> sublist ''SHOOTINGS DATA:'' (buildUserContext h clk JNull)
   \<and> sublist ''STATISTICS:'' (buildUserContext h clk JNull)"
  by (simp add: buildUserContext_def build_context_falsy template_labels template_nonempty)

text \<open>Claim C2 on the UTC host at the epoch: the date and time lines are those of
  1 January 1970, 00:00.\<close>

theorem null_bundle_skeleton_witness:
  "buildUserContext utc_host (const_clock 0) JNull =
     context_template ''USER PROFILE: Profile not found.'' ''JOBS: No jobs found.''
       ''EVENTS: No events found.'' ''AI JOBS: No AI jobs found.'' ''AGENCIES: No agencies found.''
       ''AGENTS: No agents found.'' ''MEETINGS: No meetings found.'' ''ON STAYS: No stays found.''
       ''SHOOTINGS: No shootings found.''
       (''STATISTICS:\<newline>- Total Income: $0.00 USD\<newline>- Total Jobs: 0\<newline>''
        @ ''- Upcoming Jobs: 0\<newline>- Completed Jobs: 0\<newline>- Total Events: 0\<newline>'')
       ''UPCOMING CALENDAR: No upcoming events scheduled.''
       ''Thursday, January 1, 1970'' ''00:00''
   \<and> sublist ''SHOOTINGS DATA:'' (buildUserContext utc_host (const_clock 0) JNull)"
proof -
  have d: "toLocaleDateString utc_host (const_clock 0 2) = ''Thursday, January 1, 1970''"
    by code_simp
  have t: "toLocaleTimeString utc_host (const_clock 0 3) = ''00:00''"
    by code_simp
  note n = null_bundle_skeleton [of utc_host "const_clock 0"]
  have e: "buildUserContext utc_host (const_clock 0) JNull =
     context_template ''USER PROFILE: Profile not found.'' ''JOBS: No jobs found.''
       ''EVENTS: No events found.'' ''AI JOBS: No AI jobs found.'' ''AGENCIES: No agencies found.''
       ''AGENTS: No agents found.'' ''MEETINGS: No meetings found.'' ''ON STAYS: No stays found.''
       ''SHOOTINGS: No shootings found.''
       (''STATISTICS:\<newline>- Total Income: $0.00 USD\<newline>- Total Jobs: 0\<newline>''
        @ ''- Upcoming Jobs: 0\<newline>- Completed Jobs: 0\<newline>- Total Events: 0\<newline>'')
       ''UPCOMING CALENDAR: No upcoming events scheduled.''
       ''Thursday, January 1, 1970'' ''00:00''"
    using n unfolding d t by blast
  have s: "sublist ''SHOOTINGS DATA:'' (buildUserContext utc_host (const_clock 0) JNull)"
    using n by blast
  show ?thesis
    using e s by blast
qed

section \<open>Exceptions\<close>

text \<open>The result of \<^verbatim>\<open>buildUserContext\<close> in closed form: the generic error line when one
  of the nine formatters throws, the template otherwise, with the statistics and the
  calendar summary each replaced by its own error line when it throws.\<close>

lemma context_shape:
  "buildUserContext h clk u =
     (let safeUserData = orElse (default_arg u (JObj [])) (JObj []);
          jobs = pick safeUserData ''jobs'' (JArr []);
          events = pick safeUserData ''events'' (JArr []);
          meetings = pick safeUserData ''meetings'' (JArr []);
          s1 = buildUserProfileSection h (pick safeUserData ''userProfile'' (JObj []));
          (s2, k1) = buildJobsSection h clk 0 jobs;
          s3 = buildEventsSection h events;
          s4 = buildAiJobsSection h (pick safeUserData ''aiJobs'' (JArr []));
          s5 = buildAgenciesSection h (pick safeUserData ''agencies'' (JArr []));
          s6 = buildAgentsSection h (pick safeUserData ''agents'' (JArr []));
          s7 = buildMeetingsSection h meetings;
          s8 = buildOnStaysSection h (pick safeUserData ''onStays'' (JArr []));
          s9 = buildShootingsSection h (pick safeUserData ''shootings'' (JArr []))
      in if isl s1 \<or> isl s2 \<or> isl s3 \<or> isl s4 \<or> isl s5 \<or> isl s6 \<or> isl s7 \<or> isl s8 \<or> isl s9
         then ''Error gathering user data. Please try again.''
         else context_template (projr s1) (projr s2) (projr s3) (projr s4) (projr s5) (projr s6)
                (projr s7) (projr s8) (projr s9)
                (case stats_body h (clk k1) jobs events of
                   Inl e \<Rightarrow> ''STATISTICS: Error calculating statistics.'' | Inr s \<Rightarrow> s)
                (case calendar_body h (clk (Suc k1)) jobs events meetings of
                   Inl e \<Rightarrow> ''UPCOMING CALENDAR: Error loading calendar data.'' | Inr s \<Rightarrow> s)
                (toLocaleDateString h (clk (Suc (Suc k1))))
                (toLocaleTimeString h (clk (Suc (Suc (Suc k1))))))"
proof -
  obtain s2 k1 where J:
    "buildJobsSection h clk 0
       (pick (orElse (default_arg u (JObj [])) (JObj [])) ''jobs'' (JArr [])) = (s2, k1)"
    by (cases "buildJobsSection h clk 0
       (pick (orElse (default_arg u (JObj [])) (JObj [])) ''jobs'' (JArr []))")
  show ?thesis
    by (simp add: buildUserContext_def build_context_def J calculateStatistics_def
        getCalendarSummary_def formatDisplayDate_def formatTime_def Let_def bindE_def
        split: sum.split)
qed




section \<open>Malformed dates\<close>

text \<open>
  Claim C4 at the input it names. \<^verbatim>\<open>new Date("not-a-date")\<close> does not throw: it is an
  invalid date. So the jobs section renders \<^verbatim>\<open>Invalid Date\<close> where the claim expects the
  raw string, and the comparison \<^verbatim>\<open>jobDate > now\<close> being false the job is counted as
  completed, where the claim expects it in neither count.
\<close>

theorem malformed_date_in_jobs_section:
  "buildJobsSection utc_host (const_clock 0) 0 (JArr [dated ''not-a-date''])
     = (Inr (''JOBS (1 total):\<newline>''
             @ ''- Invalid Date: Unknown Client (Job)\<newline>''
             @ ''  Rate: TBD USD | Status: Unknown | Payment: Unknown\<newline>''
             @ ''  Location: TBD\<newline>''
             @ ''\<newline>''
             @ ''SUMMARY:\<newline>''
             @ ''- Total Earnings: $0.00 USD\<newline>''
             @ ''- Upcoming Jobs: 0\<newline>''
             @ ''- Completed Jobs: 1\<newline>''), 1)"
  by code_simp

text \<open>
  Claim C6 at a record with an unparseable date. The invalid date is not excluded from
  the month histogram: \<^verbatim>\<open>getFullYear\<close> and \<^verbatim>\<open>getMonth\<close> answer NaN and the record is
  counted under the key \<^verbatim>\<open>NaN-NaN\<close>, which sorts after every year and so is always among
  the six keys shown. Its rate is part of the total income, as the claim says.
\<close>

theorem malformed_date_in_month_histogram:
  "calculateStatistics utc_host (const_clock 0) 0
     (JArr [JObj [(''date'', JStr ''not-a-date''), (''rate'', JNum (Fin 100))]]) (JArr [])
     = (''STATISTICS:\<newline>''
        @ ''- Total Income: $100.00 USD\<newline>''
        @ ''- Total Jobs: 1\<newline>''
        @ ''- Upcoming Jobs: 0\<newline>''
        @ ''- Completed Jobs: 1\<newline>''
        @ ''- Total Events: 0\<newline>''
        @ ''- Activity by Month:\<newline>''
        @ ''  NaN-NaN: 1 events\<newline>'', 1)"
  by code_simp

section \<open>Total income\<close>










section \<open>Headers, blocks and caps\<close>

lemma plain_not_nullish: "plain_record x \<Longrightarrow> \<not> nullish x"
  by (cases x) (simp_all add: plain_record_def nullish_def)

lemma plain_fld: "plain_record x \<Longrightarrow> json_primitive (fld x k)"
proof (cases x)
  case (JObj kvs)
  assume p: "plain_record x"
  show ?thesis
  proof (cases "map_of kvs k")
    case None
    with JObj show ?thesis by (simp add: json_primitive_def)
  next
    case (Some v)
    then have "(k, v) \<in> set kvs" by (rule map_of_SomeD)
    with p JObj have "json_primitive v" by (auto simp: plain_record_def list_all_iff)
    with JObj Some show ?thesis by simp
  qed
qed (simp_all add: plain_record_def)

text \<open>No conversion of a primitive value throws.\<close>

lemma primitive_ToString: "json_primitive v \<Longrightarrow> \<not> isl (ToString h v)"
  by (cases v) (simp_all add: json_primitive_def)

lemma primitive_orElse: "json_primitive v \<Longrightarrow> json_primitive (orElse v (JStr d))"
  by (simp add: orElse_def json_primitive_def)

lemma primitive_tpl_or: "json_primitive v \<Longrightarrow> \<not> isl (tpl_or h v d)"
  by (simp add: tpl_or_def primitive_ToString primitive_orElse)

lemma primitive_parseFloat: "json_primitive v \<Longrightarrow> \<not> isl (parseFloat h v)"
  by (cases v) (simp_all add: json_primitive_def parseFloat_def)

lemma primitive_ToNumber: "json_primitive v \<Longrightarrow> \<not> isl (ToNumber h v)"
  by (cases v) (simp_all add: json_primitive_def ToNumber_def)

lemma primitive_gt_zero: "json_primitive v \<Longrightarrow> \<not> isl (gt_zero h v)"
  using primitive_ToNumber [of v h] by (cases "ToNumber h v") (simp_all add: gt_zero_def)

lemma primitive_new_Date: "json_primitive v \<Longrightarrow> \<not> isl (new_Date h v)"
  using primitive_ToNumber [of v h]
  by (cases v; cases "ToNumber h v") (simp_all add: json_primitive_def new_Date_def)

lemma primitive_display: "json_primitive v \<Longrightarrow> \<not> isl (display_new_Date h v)"
  using primitive_new_Date [of v h]
  by (cases "new_Date h v") (simp_all add: display_new_Date_def)

lemmas no_throw =
  isl_bindE isl_cat_Cons isl_cat_Nil plain_not_nullish plain_fld primitive_ToString
  primitive_tpl_or primitive_parseFloat primitive_gt_zero primitive_display when_truthy_def
  city_country_def

text \<open>The block of a plain record is rendered without an exception.\<close>

lemma plain_blocks:
  assumes "plain_record x"
  shows "\<not> isl (jobBlock h x)" "\<not> isl (eventBlock h x)" "\<not> isl (aiJobBlock h x)"
    "\<not> isl (agencyBlock h x)" "\<not> isl (agentBlock h x)" "\<not> isl (meetingBlock h x)"
    "\<not> isl (stayBlock h x)" "\<not> isl (shootingBlock h x)"
  using assms
  by (simp_all add: jobBlock_def eventBlock_def aiJobBlock_def agencyBlock_def agentBlock_def
      meetingBlock_def stayBlock_def shootingBlock_def no_throw)

text \<open>A loop of \<^verbatim>\<open>section += block\<close> returns the header followed by the blocks, in the
  order of the records.\<close>

lemma blocks_loop:
  "list_all (\<lambda>x. \<not> isl (blk x)) ys \<Longrightarrow>
     \<exists>bs. list_all2 (\<lambda>x b. blk x = Inr b) ys bs
          \<and> foldE (append_block blk) hdr ys = Inr (hdr @ concat bs)"
proof (induction ys arbitrary: hdr)
  case Nil
  then show ?case by simp
next
  case (Cons y ys)
  then obtain b where b: "blk y = Inr b" by (cases "blk y") simp_all
  from Cons obtain bs where "list_all2 (\<lambda>x b. blk x = Inr b) ys bs"
    and "foldE (append_block blk) (hdr @ b) ys = Inr ((hdr @ b) @ concat bs)"
    by fastforce
  with b have "list_all2 (\<lambda>x b. blk x = Inr b) (y # ys) (b # bs)
      \<and> foldE (append_block blk) hdr (y # ys) = Inr (hdr @ concat (b # bs))"
    by (simp add: append_block_def)
  then show ?case by blast
qed

lemma plain_take: "list_all plain_record xs \<Longrightarrow> list_all plain_record (take n xs)"
  by (auto simp: list_all_iff dest: in_set_takeD)

lemma jobs_step_plain:
  assumes "plain_record x"
  shows "\<exists>b a'. jobBlock h x = Inr b \<and> jobs_step h now a x = Inr a' \<and> sec a' = sec a @ b"
proof -
  from plain_blocks(1) [OF assms, where h = h] obtain b where b: "jobBlock h x = Inr b"
    by (cases "jobBlock h x") simp_all
  from primitive_parseFloat [OF plain_fld [OF assms], of h "''rate''"]
  obtain n where n: "parseFloat h (fld x ''rate'') = Inr n"
    by (cases "parseFloat h (fld x ''rate'')") simp_all
  show ?thesis
    using b n plain_not_nullish [OF assms]
    by (simp add: jobs_step_def append_block_def Let_def split: sum.split prod.split)
qed

lemma jobs_loop_plain:
  "list_all plain_record ys \<Longrightarrow>
     \<exists>bs a'. list_all2 (\<lambda>x b. jobBlock h x = Inr b) ys bs
          \<and> foldE (jobs_step h now) a ys = Inr a' \<and> sec a' = sec a @ concat bs"
proof (induction ys arbitrary: a)
  case Nil
  then show ?case by simp
next
  case (Cons y ys)
  then have "plain_record y" by simp
  from jobs_step_plain [OF this, of h now a] obtain b a1 where b: "jobBlock h y = Inr b"
    and s: "jobs_step h now a y = Inr a1" and c: "sec a1 = sec a @ b" by blast
  from Cons obtain bs a' where "list_all2 (\<lambda>x b. jobBlock h x = Inr b) ys bs"
    and "foldE (jobs_step h now) a1 ys = Inr a'" and "sec a' = sec a1 @ concat bs"
    by fastforce
  with b s c have "list_all2 (\<lambda>x b. jobBlock h x = Inr b) (y # ys) (b # bs)
      \<and> foldE (jobs_step h now) a (y # ys) = Inr a' \<and> sec a' = sec a @ concat (b # bs)"
    by simp
  then show ?case by blast
qed

lemma section_shapes:
  assumes "xs \<noteq> []" and "list_all plain_record xs"
  shows
   "(\<exists>bs a. list_all2 (\<lambda>x b. jobBlock h x = Inr b) xs bs
        \<and> sec a = ''JOBS ('' @ count_str xs @ '' total):\<newline>'' @ concat bs
        \<and> buildJobsSection h clk k (JArr xs) = (Inr (jobs_summary a), Suc k))
    \<and> (\<exists>bs. list_all2 (\<lambda>x b. eventBlock h x = Inr b) (take 20 xs) bs
        \<and> buildEventsSection h (JArr xs)
            = Inr (''EVENTS ('' @ count_str xs @ '' total):\<newline>'' @ concat bs))
    \<and> (\<exists>bs. list_all2 (\<lambda>x b. aiJobBlock h x = Inr b) (take 5 xs) bs
        \<and> buildAiJobsSection h (JArr xs) = Inr (''AI JOBS:\<newline>'' @ concat bs))
    \<and> (\<exists>bs. list_all2 (\<lambda>x b. agencyBlock h x = Inr b) xs bs
        \<and> buildAgenciesSection h (JArr xs)
            = Inr (''AGENCIES ('' @ count_str xs @ '' total):\<newline>'' @ concat bs))
    \<and> (\<exists>bs. list_all2 (\<lambda>x b. agentBlock h x = Inr b) xs bs
        \<and> buildAgentsSection h (JArr xs)
            = Inr (''AGENTS ('' @ count_str xs @ '' total):\<newline>'' @ concat bs))
    \<and> (\<exists>bs. list_all2 (\<lambda>x b. meetingBlock h x = Inr b) (take 10 xs) bs
        \<and> buildMeetingsSection h (JArr xs)
            = Inr (''MEETINGS ('' @ count_str xs @ '' total):\<newline>'' @ concat bs))
    \<and> (\<exists>bs. list_all2 (\<lambda>x b. stayBlock h x = Inr b) (take 10 xs) bs
        \<and> buildOnStaysSection h (JArr xs)
            = Inr (''ON STAYS ('' @ count_str xs @ '' total):\<newline>'' @ concat bs))
    \<and> (\<exists>bs. list_all2 (\<lambda>x b. shootingBlock h x = Inr b) (take 10 xs) bs
        \<and> buildShootingsSection h (JArr xs)
            = Inr (''SHOOTINGS ('' @ count_str xs @ '' total):\<newline>'' @ concat bs))"
proof -
  have ok: "\<And>blk n. (\<And>x. plain_record x \<Longrightarrow> \<not> isl (blk x)) \<Longrightarrow>
      list_all (\<lambda>x. \<not> isl (blk x)) (take n xs)"
    using plain_take [OF assms(2)] by (auto simp: list_all_iff)
  have all: "\<And>blk. (\<And>x. plain_record x \<Longrightarrow> \<not> isl (blk x)) \<Longrightarrow>
      list_all (\<lambda>x. \<not> isl (blk x)) xs"
    using assms(2) by (auto simp: list_all_iff)
  have jobs: "\<exists>bs a. list_all2 (\<lambda>x b. jobBlock h x = Inr b) xs bs
        \<and> sec a = ''JOBS ('' @ count_str xs @ '' total):\<newline>'' @ concat bs
        \<and> buildJobsSection h clk k (JArr xs) = (Inr (jobs_summary a), Suc k)"
  proof -
    from jobs_loop_plain [OF assms(2), of h "clk k"
        "\<lparr>sec = ''JOBS ('' @ count_str xs @ '' total):\<newline>'', totalEarnings = Fin 0,
          upcomingJobs = 0, completedJobs = 0\<rparr>"]
    obtain bs a where l: "list_all2 (\<lambda>x b. jobBlock h x = Inr b) xs bs"
      and f: "foldE (jobs_step h (clk k))
          \<lparr>sec = ''JOBS ('' @ count_str xs @ '' total):\<newline>'', totalEarnings = Fin 0,
            upcomingJobs = 0, completedJobs = 0\<rparr> xs = Inr a"
      and c: "sec a = ''JOBS ('' @ count_str xs @ '' total):\<newline>'' @ concat bs"
      by auto
    from f assms(1) have "buildJobsSection h clk k (JArr xs) = (Inr (jobs_summary a), Suc k)"
      unfolding count_str_def by (simp add: buildJobsSection_def jobs_body_def forEach_def)
    with l c show ?thesis by blast
  qed
  have events: "\<exists>bs. list_all2 (\<lambda>x b. eventBlock h x = Inr b) (take 20 xs) bs
        \<and> buildEventsSection h (JArr xs)
            = Inr (''EVENTS ('' @ count_str xs @ '' total):\<newline>'' @ concat bs)"
    using blocks_loop [OF ok [of "eventBlock h" 20],
        of "''EVENTS ('' @ count_str xs @ '' total):\<newline>''"] assms(1)
    by (simp add: plain_blocks buildEventsSection_def slice0_def forEach_def count_str_def)
  have ai: "\<exists>bs. list_all2 (\<lambda>x b. aiJobBlock h x = Inr b) (take 5 xs) bs
        \<and> buildAiJobsSection h (JArr xs) = Inr (''AI JOBS:\<newline>'' @ concat bs)"
    using blocks_loop [OF ok [of "aiJobBlock h" 5],
        of "''AI JOBS:\<newline>''"] assms(1)
    by (simp add: plain_blocks buildAiJobsSection_def slice0_def forEach_def)
  have agencies: "\<exists>bs. list_all2 (\<lambda>x b. agencyBlock h x = Inr b) xs bs
        \<and> buildAgenciesSection h (JArr xs)
            = Inr (''AGENCIES ('' @ count_str xs @ '' total):\<newline>'' @ concat bs)"
    using blocks_loop [OF all [of "agencyBlock h"],
        of "''AGENCIES ('' @ count_str xs @ '' total):\<newline>''"] assms(1)
    by (simp add: plain_blocks buildAgenciesSection_def forEach_def count_str_def)
  have agents: "\<exists>bs. list_all2 (\<lambda>x b. agentBlock h x = Inr b) xs bs
        \<and> buildAgentsSection h (JArr xs)
            = Inr (''AGENTS ('' @ count_str xs @ '' total):\<newline>'' @ concat bs)"
    using blocks_loop [OF all [of "agentBlock h"],
        of "''AGENTS ('' @ count_str xs @ '' total):\<newline>''"] assms(1)
    by (simp add: plain_blocks buildAgentsSection_def forEach_def count_str_def)
  have meetings: "\<exists>bs. list_all2 (\<lambda>x b. meetingBlock h x = Inr b) (take 10 xs) bs
        \<and> buildMeetingsSection h (JArr xs)
            = Inr (''MEETINGS ('' @ count_str xs @ '' total):\<newline>'' @ concat bs)"
    using blocks_loop [OF ok [of "meetingBlock h" 10],
        of "''MEETINGS ('' @ count_str xs @ '' total):\<newline>''"] assms(1)
    by (simp add: plain_blocks buildMeetingsSection_def slice0_def forEach_def count_str_def)
  have stays: "\<exists>bs. list_all2 (\<lambda>x b. stayBlock h x = Inr b) (take 10 xs) bs
        \<and> buildOnStaysSection h (JArr xs)
            = Inr (''ON STAYS ('' @ count_str xs @ '' total):\<newline>'' @ concat bs)"
    using blocks_loop [OF ok [of "stayBlock h" 10],
        of "''ON STAYS ('' @ count_str xs @ '' total):\<newline>''"] assms(1)
    by (simp add: plain_blocks buildOnStaysSection_def slice0_def forEach_def count_str_def)
  have shootings: "\<exists>bs. list_all2 (\<lambda>x b. shootingBlock h x = Inr b) (take 10 xs) bs
        \<and> buildShootingsSection h (JArr xs)
            = Inr (''SHOOTINGS ('' @ count_str xs @ '' total):\<newline>'' @ concat bs)"
    using blocks_loop [OF ok [of "shootingBlock h" 10],
        of "''SHOOTINGS ('' @ count_str xs @ '' total):\<newline>''"] assms(1)
    by (simp add: plain_blocks buildShootingsSection_def slice0_def forEach_def count_str_def)
  from jobs events ai agencies agents meetings stays shootings show ?thesis
    by (intro conjI)
qed

text \<open>
  Claim C7, as the code has it. For every non-empty array \<open>xs\<close> of plain records (an
  array has fewer than \<open>2^32\<close> elements), each formatter returns its header line followed
  by one block per record, in the order of the array, of the first 20 records for
  events, the first 5 for AI jobs, the first 10 for meetings, stays and shootings, and
  of all records for jobs, agencies and agents (the jobs section then ends with its
  summary lines). The header contains the total count, in decimal digits, for every
  category except the AI jobs, whose header is the fixed line \<^verbatim>\<open>AI JOBS:\<close>.
\<close>

theorem section_header_and_blocks:
  assumes "xs \<noteq> []" and "length xs < 2 ^ 32" and "list_all plain_record xs"
  shows
   "(\<exists>bs a. list_all2 (\<lambda>x b. jobBlock h x = Inr b) xs bs
        \<and> sec a = ''JOBS ('' @ dec (int (length xs)) @ '' total):\<newline>'' @ concat bs
        \<and> buildJobsSection h clk k (JArr xs) = (Inr (jobs_summary a), Suc k))
    \<and> (\<exists>bs. list_all2 (\<lambda>x b. eventBlock h x = Inr b) (take 20 xs) bs
        \<and> buildEventsSection h (JArr xs)
            = Inr (''EVENTS ('' @ dec (int (length xs)) @ '' total):\<newline>'' @ concat bs))
    \<and> (\<exists>bs. list_all2 (\<lambda>x b. aiJobBlock h x = Inr b) (take 5 xs) bs
        \<and> buildAiJobsSection h (JArr xs) = Inr (''AI JOBS:\<newline>'' @ concat bs))
    \<and> (\<exists>bs. list_all2 (\<lambda>x b. agencyBlock h x = Inr b) xs bs
        \<and> buildAgenciesSection h (JArr xs)
            = Inr (''AGENCIES ('' @ dec (int (length xs)) @ '' total):\<newline>'' @ concat bs))
    \<and> (\<exists>bs. list_all2 (\<lambda>x b. agentBlock h x = Inr b) xs bs
        \<and> buildAgentsSection h (JArr xs)
            = Inr (''AGENTS ('' @ dec (int (length xs)) @ '' total):\<newline>'' @ concat bs))
    \<and> (\<exists>bs. list_all2 (\<lambda>x b. meetingBlock h x = Inr b) (take 10 xs) bs
        \<and> buildMeetingsSection h (JArr xs)
            = Inr (''MEETINGS ('' @ dec (int (length xs)) @ '' total):\<newline>'' @ concat bs))
    \<and> (\<exists>bs. list_all2 (\<lambda>x b. stayBlock h x = Inr b) (take 10 xs) bs
        \<and> buildOnStaysSection h (JArr xs)
            = Inr (''ON STAYS ('' @ dec (int (length xs)) @ '' total):\<newline>'' @ concat bs))
    \<and> (\<exists>bs. list_all2 (\<lambda>x b. shootingBlock h x = Inr b) (take 10 xs) bs
        \<and> buildShootingsSection h (JArr xs)
            = Inr (''SHOOTINGS ('' @ dec (int (length xs)) @ '' total):\<newline>'' @ concat bs))"
  using section_shapes [OF assms(1,3), of h clk k]
  by (simp only: count_str_dec [OF assms(2)])

text \<open>Claim C7 as amended, on one record with a date: the events section is the header
  with the count 1 and one block.\<close>

theorem section_header_and_blocks_witness:
  "\<exists>bs. list_all2 (\<lambda>x b. eventBlock utc_host x = Inr b) (take 20 [dated ''2025-09-09'']) bs
      \<and> buildEventsSection utc_host (JArr [dated ''2025-09-09''])
          = Inr (''EVENTS (1 total):\<newline>'' @ concat bs)"
proof -
  have n: "[dated ''2025-09-09''] \<noteq> []" by simp
  have l: "length [dated ''2025-09-09''] < 2 ^ 32" by simp
  have p: "list_all plain_record [dated ''2025-09-09'']"
    by (simp add: dated_def plain_record_def json_primitive_def)
  have d: "dec (int (length [dated ''2025-09-09''])) = ''1''" by code_simp
  from section_header_and_blocks [OF n l p, of utc_host "const_clock 0" 0]
  have "\<exists>bs. list_all2 (\<lambda>x b. eventBlock utc_host x = Inr b) (take 20 [dated ''2025-09-09'']) bs
      \<and> buildEventsSection utc_host (JArr [dated ''2025-09-09''])
          = Inr (''EVENTS ('' @ dec (int (length [dated ''2025-09-09''])) @ '' total):\<newline>''
                 @ concat bs)"
    by blast
  then show ?thesis unfolding d by simp
qed

text \<open>
  Claim C7 fails as stated for the AI jobs: the header line of their section carries no
  count. With one record and with two the header is the same line \<^verbatim>\<open>AI JOBS:\<close>.
\<close>

theorem section_header_counterexample:
  "buildAiJobsSection utc_host (JArr [JObj []])
     = Inr (''AI JOBS:\<newline>''
            @ ''- Date TBD: Unknown Client (AI Job)\<newline>''
            @ ''  Rate: Rate TBD | Status: Unknown | Payment: Unknown\<newline>''
            @ ''\<newline>'')
   \<and> buildAiJobsSection utc_host (JArr [JObj [], JObj []])
     = Inr (''AI JOBS:\<newline>''
            @ ''- Date TBD: Unknown Client (AI Job)\<newline>''
            @ ''  Rate: Rate TBD | Status: Unknown | Payment: Unknown\<newline>''
            @ ''\<newline>''
            @ ''- Date TBD: Unknown Client (AI Job)\<newline>''
            @ ''  Rate: Rate TBD | Status: Unknown | Payment: Unknown\<newline>''
            @ ''\<newline>'')"
  by code_simp

section \<open>Calendar merger\<close>

lemma push_append:
  "push_if_upcoming h now acc x mk = acc @ push_if_upcoming h now [] x mk"
  by (simp add: push_if_upcoming_def split: sum.split option.split)

lemma cal_loop:
  assumes "\<And>u x. f u x = u @ f [] x"
  shows "foldE (\<lambda>u x. Inr (f u x)) acc xs = Inr (acc @ concat (map (f []) xs))"
proof (induction xs arbitrary: acc)
  case Nil
  then show ?case by simp
next
  case (Cons x xs)
  have "f acc x = acc @ f [] x" by (rule assms)
  with Cons show ?case by simp
qed

lemma cal_append:
  "cal_job h now u x = u @ cal_job h now [] x"
  "cal_event h now u x = u @ cal_event h now [] x"
  "cal_meeting h now u x = u @ cal_meeting h now [] x"
  unfolding cal_job_def cal_event_def cal_meeting_def by (rule push_append)+

text \<open>On arrays the three loops never throw; the list is what the jobs push, then the
  events, then the meetings, each in the order of its array.\<close>

lemma collect_arrays:
  "collect_upcoming h now (JArr js) (JArr es) (JArr ms) =
     Inr (concat (map (cal_job h now []) js) @ concat (map (cal_event h now []) es)
          @ concat (map (cal_meeting h now []) ms))"
  by (simp add: collect_upcoming_def forEach_def cal_loop [of "cal_job h now", OF cal_append(1)]
      cal_loop [of "cal_event h now", OF cal_append(2)]
      cal_loop [of "cal_meeting h now", OF cal_append(3)])

lemma cal_future:
  "list_all (\<lambda>i. now < ev_date i) (cal_job h now [] x)"
  "list_all (\<lambda>i. now < ev_date i) (cal_event h now [] x)"
  "list_all (\<lambda>i. now < ev_date i) (cal_meeting h now [] x)"
  unfolding cal_job_def cal_event_def cal_meeting_def
  by (auto simp: push_if_upcoming_def after_def bindE_def
      split: sum.split option.split if_splits)

lemma future_concat:
  "(\<And>x. list_all P (f x)) \<Longrightarrow> list_all P (concat (map f xs))"
  by (induction xs) simp_all

lemma top_sorted: "sorted (map ev_date (topEvents U))"
proof -
  have "sorted (map ev_date (sort_key ev_date U))" by (rule sorted_sort_key)
  then show ?thesis by (simp add: topEvents_def take_map [symmetric] sorted_wrt_take)
qed

lemma push_dates:
  assumes "\<And>t item. mk t = Inr item \<Longrightarrow> ev_date item = t"
  shows "map ev_date (push_if_upcoming h now [] x mk) =
     (case spec_upcoming_date h now x of
        None \<Rightarrow> []
      | Some t \<Rightarrow> (case mk t of Inl e \<Rightarrow> [] | Inr item \<Rightarrow> [t]))"
  using assms
  by (auto simp: push_if_upcoming_def spec_upcoming_date_def after_def
      split: sum.split option.split)

lemma cal_job_dates:
  "map ev_date (cal_job h now [] x) =
     (case spec_upcoming_date h now x of None \<Rightarrow> [] | Some t \<Rightarrow> [t])"
  unfolding cal_job_def by (subst push_dates) (auto split: option.split)

lemma cal_meeting_dates:
  "map ev_date (cal_meeting h now [] x) =
     (case spec_upcoming_date h now x of None \<Rightarrow> [] | Some t \<Rightarrow> [t])"
  unfolding cal_meeting_def by (subst push_dates) (auto split: option.split)

lemma cal_event_dates:
  "map ev_date (cal_event h now [] x) =
     (case spec_upcoming_date h now x of
        None \<Rightarrow> []
      | Some t \<Rightarrow> if truthy (fld x ''type'') \<and> isl (ToString h (fld x ''type'')) then [] else [t])"
  by (auto simp: cal_event_def push_if_upcoming_def spec_upcoming_date_def after_def bindE_def
      split: sum.splits option.splits)

lemma calendar_body_arrays:
  "calendar_body h now (JArr js) (JArr es) (JArr ms) =
     (let top = topEvents (concat (map (cal_job h now []) js)
                  @ concat (map (cal_event h now []) es)
                  @ concat (map (cal_meeting h now []) ms))
      in if top = [] then Inr ''UPCOMING CALENDAR: No upcoming events scheduled.''
         else cal_blocks h
                (''UPCOMING CALENDAR (Next '' @ dec (int (length top)) @ '' Events):\<newline>'') top)"
  by (simp add: calendar_body_def collect_arrays Let_def)

text \<open>
  Claim C8. For all arrays of jobs, events and meetings and every clock reading
  \<open>now\<close>, the merger collects a list \<open>U\<close> without throwing. \<open>U\<close> is what the jobs
  contribute, then the events, then the meetings, each in the order of its array. A
  job or a meeting contributes one entry, dated with its parsed date, exactly when that
  date is strictly later than \<open>now\<close>, and nothing when its date is absent, unparseable
  or not later; an event does the same (and contributes nothing when the conversion of
  its \<^verbatim>\<open>type\<close> throws). So every entry of \<open>U\<close> is strictly later than \<open>now\<close>. The
  rendered list is the first 10 entries of \<open>U\<close> sorted by date; it is ascending, and
  the sort is stable: entries of one date keep the order they have in \<open>U\<close>. When that
  list is empty the result is the single line
  \<^verbatim>\<open>UPCOMING CALENDAR: No upcoming events scheduled.\<close>; otherwise it is the header and
  the blocks of these entries.
\<close>

theorem calendar_merger:
  "\<exists>U. collect_upcoming h now (JArr js) (JArr es) (JArr ms) = Inr U
     \<and> U = concat (map (cal_job h now []) js) @ concat (map (cal_event h now []) es)
           @ concat (map (cal_meeting h now []) ms)
     \<and> (\<forall>x. map ev_date (cal_job h now [] x)
              = (case spec_upcoming_date h now x of None \<Rightarrow> [] | Some t \<Rightarrow> [t]))
     \<and> (\<forall>x. map ev_date (cal_event h now [] x)
              = (case spec_upcoming_date h now x of
                   None \<Rightarrow> []
                 | Some t \<Rightarrow> if truthy (fld x ''type'') \<and> isl (ToString h (fld x ''type''))
                            then [] else [t]))
     \<and> (\<forall>x. map ev_date (cal_meeting h now [] x)
              = (case spec_upcoming_date h now x of None \<Rightarrow> [] | Some t \<Rightarrow> [t]))
     \<and> list_all (\<lambda>i. now < ev_date i) U
     \<and> topEvents U = take 10 (sort_key ev_date U)
     \<and> sorted (map ev_date (topEvents U))
     \<and> (\<forall>d. filter (\<lambda>i. ev_date i = d) (sort_key ev_date U) = filter (\<lambda>i. ev_date i = d) U)
     \<and> calendar_body h now (JArr js) (JArr es) (JArr ms)
         = (if topEvents U = [] then Inr ''UPCOMING CALENDAR: No upcoming events scheduled.''
            else cal_blocks h
                   (''UPCOMING CALENDAR (Next '' @ dec (int (length (topEvents U)))
                    @ '' Events):\<newline>'') (topEvents U))"
proof -
  define U where "U = concat (map (cal_job h now []) js) @ concat (map (cal_event h now []) es)
           @ concat (map (cal_meeting h now []) ms)"
  have c: "collect_upcoming h now (JArr js) (JArr es) (JArr ms) = Inr U"
    by (simp add: U_def collect_arrays)
  have f: "list_all (\<lambda>i. now < ev_date i) U"
    by (simp add: U_def future_concat cal_future)
  have s: "\<forall>d. filter (\<lambda>i. ev_date i = d) (sort_key ev_date U) = filter (\<lambda>i. ev_date i = d) U"
    by (simp add: sort_key_stable)
  have b: "calendar_body h now (JArr js) (JArr es) (JArr ms)
         = (if topEvents U = [] then Inr ''UPCOMING CALENDAR: No upcoming events scheduled.''
            else cal_blocks h
                   (''UPCOMING CALENDAR (Next '' @ dec (int (length (topEvents U)))
                    @ '' Events):\<newline>'') (topEvents U))"
    by (simp add: calendar_body_arrays U_def Let_def)
  from c f s b show ?thesis
    using cal_job_dates cal_event_dates cal_meeting_dates top_sorted U_def topEvents_def
    by blast
qed

text \<open>Claim C8 on one job, one event and one meeting of the same future date, with a
  second, earlier meeting: the earlier meeting comes first, then the job, the event and
  the meeting of the shared date, in that order.\<close>

theorem calendar_merger_witness:
  "\<exists>U. collect_upcoming utc_host 0 (JArr [booking ''A'' ''1970-01-03''])
          (JArr [booking ''B'' ''1970-01-03''])
          (JArr [booking ''C'' ''1970-01-03'', booking ''D'' ''1970-01-02'',
                 booking ''E'' ''not-a-date'', booking ''F'' ''1969-12-31'']) = Inr U
      \<and> topEvents U = [entry ''meeting'' ''D'' 86400000, entry ''job'' ''A'' 172800000,
                        entry ''event'' ''B'' 172800000, entry ''meeting'' ''C'' 172800000]
      \<and> sorted (map ev_date (topEvents U))"
proof -
  from calendar_merger [of utc_host 0 "[booking ''A'' ''1970-01-03'']"
      "[booking ''B'' ''1970-01-03'']"
      "[booking ''C'' ''1970-01-03'', booking ''D'' ''1970-01-02'',
        booking ''E'' ''not-a-date'', booking ''F'' ''1969-12-31'']"]
  obtain U where c: "collect_upcoming utc_host 0 (JArr [booking ''A'' ''1970-01-03''])
          (JArr [booking ''B'' ''1970-01-03''])
          (JArr [booking ''C'' ''1970-01-03'', booking ''D'' ''1970-01-02'',
                 booking ''E'' ''not-a-date'', booking ''F'' ''1969-12-31'']) = Inr U"
    and u: "U = concat (map (cal_job utc_host 0 []) [booking ''A'' ''1970-01-03''])
           @ concat (map (cal_event utc_host 0 []) [booking ''B'' ''1970-01-03''])
           @ concat (map (cal_meeting utc_host 0 [])
               [booking ''C'' ''1970-01-03'', booking ''D'' ''1970-01-02'',
                booking ''E'' ''not-a-date'', booking ''F'' ''1969-12-31''])"
    and s: "sorted (map ev_date (topEvents U))"
    by blast
  have a: "cal_job utc_host 0 [] (booking ''A'' ''1970-01-03'') = [entry ''job'' ''A'' 172800000]"
    by code_simp
  have b: "cal_event utc_host 0 [] (booking ''B'' ''1970-01-03'')
             = [entry ''event'' ''B'' 172800000]"
    by code_simp
  have m: "cal_meeting utc_host 0 [] (booking ''C'' ''1970-01-03'')
             = [entry ''meeting'' ''C'' 172800000]"
    "cal_meeting utc_host 0 [] (booking ''D'' ''1970-01-02'') = [entry ''meeting'' ''D'' 86400000]"
    "cal_meeting utc_host 0 [] (booking ''E'' ''not-a-date'') = []"
    "cal_meeting utc_host 0 [] (booking ''F'' ''1969-12-31'') = []"
    by code_simp+
  have t: "topEvents U = [entry ''meeting'' ''D'' 86400000, entry ''job'' ''A'' 172800000,
                        entry ''event'' ''B'' 172800000, entry ''meeting'' ''C'' 172800000]"
    by (simp add: u a b m topEvents_def entry_def)
  show ?thesis
    using c t s by (intro exI [of _ U] conjI)
qed

section \<open>The clock\<close>

lemma jobs_section_clock:
  "clk1 k = clk2 k \<Longrightarrow> buildJobsSection h clk1 k jobs = buildJobsSection h clk2 k jobs"
  by (simp add: buildJobsSection_def split: sum.split)

lemma jobs_section_reads:
  "snd (buildJobsSection h clk k jobs) = k \<or> snd (buildJobsSection h clk k jobs) = Suc k"
  by (simp add: buildJobsSection_def split: sum.split)

text \<open>
  Claim C9, as the code has it. One invocation reads the clock up to five times: once
  in the jobs section (when there are jobs), once in the statistics, once in the
  calendar merger (each uses its own reading for all its comparisons), and twice more
  for the date and time lines. Two runs on the same bundle whose first five clock
  samples agree produce the same output.
\<close>

theorem same_samples_same_context:
  assumes "\<forall>k<5. clk1 k = clk2 k"
  shows "buildUserContext h clk1 u = buildUserContext h clk2 u"
proof -
  define jobs where "jobs = pick (orElse (default_arg u (JObj [])) (JObj [])) ''jobs'' (JArr [])"
  obtain s2 k1 where J1: "buildJobsSection h clk1 0 jobs = (s2, k1)"
    by (cases "buildJobsSection h clk1 0 jobs")
  from assms have "clk1 0 = clk2 0" by simp
  with jobs_section_clock [of clk1 0 clk2 h jobs] J1
  have J2: "buildJobsSection h clk2 0 jobs = (s2, k1)"
    by simp
  from jobs_section_reads [of h clk1 0 jobs] J1 have "k1 = 0 \<or> k1 = 1" by simp
  with assms have "clk1 k1 = clk2 k1" "clk1 (Suc k1) = clk2 (Suc k1)"
    "clk1 (Suc (Suc k1)) = clk2 (Suc (Suc k1))"
    "clk1 (Suc (Suc (Suc k1))) = clk2 (Suc (Suc (Suc k1)))"
    by auto
  then show ?thesis
    using J1 J2 unfolding jobs_def by (simp add: context_shape Let_def)
qed

text \<open>Claim C9 as amended, on two clocks that differ from their sixth reading on.\<close>

theorem same_samples_same_context_witness:
  "buildUserContext utc_host (step_clock 0 5 172800000) (JObj [(''jobs'', JArr [dated ''1970-01-02''])])
     = buildUserContext utc_host (const_clock 0) (JObj [(''jobs'', JArr [dated ''1970-01-02''])])"
proof -
  have "\<forall>k<5. step_clock 0 5 172800000 k = const_clock 0 k"
    by (simp add: step_clock_def const_clock_def)
  then show ?thesis by (rule same_samples_same_context)
qed

text \<open>
  Claim C9 fails as stated. With a clock that reads the epoch first and two days later
  from its second reading on, and one job dated 2 January 1970, the jobs section
  compares with the first reading and counts the job as upcoming, while the statistics
  of the same run compare with the second reading and count it as completed. The first
  sample is the one of the constant clock, and the two outputs differ.
\<close>

theorem clock_counterexample:
  "buildJobsSection utc_host (step_clock 0 1 172800000) 0 (JArr [dated ''1970-01-02''])
     = (Inr (''JOBS (1 total):\<newline>''
             @ ''- Friday, January 2, 1970: Unknown Client (Job)\<newline>''
             @ ''  Rate: TBD USD | Status: Unknown | Payment: Unknown\<newline>''
             @ ''  Location: TBD\<newline>''
             @ ''\<newline>''
             @ ''SUMMARY:\<newline>''
             @ ''- Total Earnings: $0.00 USD\<newline>''
             @ ''- Upcoming Jobs: 1\<newline>''
             @ ''- Completed Jobs: 0\<newline>''), 1)
   \<and> calculateStatistics utc_host (step_clock 0 1 172800000) 1
       (JArr [dated ''1970-01-02'']) (JArr [])
     = (''STATISTICS:\<newline>''
        @ ''- Total Income: $0.00 USD\<newline>''
        @ ''- Total Jobs: 1\<newline>''
        @ ''- Upcoming Jobs: 0\<newline>''
        @ ''- Completed Jobs: 1\<newline>''
        @ ''- Total Events: 0\<newline>''
        @ ''- Activity by Month:\<newline>''
        @ ''  1970-01: 1 events\<newline>'', 2)
   \<and> step_clock 0 1 172800000 0 = const_clock 0 0
   \<and> buildUserContext utc_host (step_clock 0 1 172800000)
         (JObj [(''jobs'', JArr [dated ''1970-01-02''])])
       \<noteq> buildUserContext utc_host (const_clock 0)
         (JObj [(''jobs'', JArr [dated ''1970-01-02''])])"
  by code_simp

section \<open>The jobs summary and the statistics\<close>

lemma jobs_step_lockstep:
  assumes "jobs_step h now a x = Inr a'" and "same_figures a b"
  shows "\<exists>b'. stats_step h now b x = Inr b' \<and> same_figures a' b'"
  using assms
  by (auto simp: jobs_step_def stats_step_def same_figures_def bindE_def Let_def
      split: if_splits sum.splits)

text \<open>The two loops run in lockstep: where the loop of the jobs section ends, the first
  loop of the statistics ends with the same three figures.\<close>

lemma jobs_loop_lockstep:
  "foldE (jobs_step h now) a js = Inr a' \<Longrightarrow> same_figures a b \<Longrightarrow>
     \<exists>b'. foldE (stats_step h now) b js = Inr b' \<and> same_figures a' b'"
proof (induction js arbitrary: a b)
  case Nil
  then show ?case by simp
next
  case (Cons x js)
  from Cons.prems(1) obtain a1 where s: "jobs_step h now a x = Inr a1"
    and r: "foldE (jobs_step h now) a1 js = Inr a'"
    by (auto simp: bindE_def split: sum.splits)
  from jobs_step_lockstep [OF s Cons.prems(2)] obtain b1
    where t: "stats_step h now b x = Inr b1" and f: "same_figures a1 b1" by blast
  from Cons.IH [OF r f] t show ?case by simp
qed

lemma jobs_loop_not_nullish:
  "foldE (jobs_step h now) a js = Inr a' \<Longrightarrow> list_all (\<lambda>x. \<not> nullish x) js"
proof (induction js arbitrary: a)
  case Nil
  then show ?case by simp
next
  case (Cons x js)
  from Cons.prems obtain a1 where s: "jobs_step h now a x = Inr a1"
    and r: "foldE (jobs_step h now) a1 js = Inr a'"
    by (auto simp: bindE_def split: sum.splits)
  from s have "\<not> nullish x" by (auto simp: jobs_step_def split: if_splits)
  with Cons.IH [OF r] show ?case by simp
qed

lemma month_loop_ok:
  "list_all (\<lambda>x. \<not> nullish x) xs \<Longrightarrow> \<exists>m. foldE (month_step h) acc xs = Inr m"
proof (induction xs arbitrary: acc)
  case Nil
  then show ?case by simp
next
  case (Cons x xs)
  from Cons.prems have "\<exists>m1. month_step h acc x = Inr m1"
    by (simp add: month_step_def split: sum.split)
  then obtain m1 where "month_step h acc x = Inr m1" by blast
  with Cons show ?case by simp
qed

text \<open>The statistics do not fail when both loops get arrays without null elements.\<close>

lemma stats_body_ok:
  assumes "foldE (stats_step h now)
             \<lparr>totalIncome = Fin 0, st_upcomingJobs = 0, st_completedJobs = 0\<rparr> js = Inr b"
    and "list_all (\<lambda>x. \<not> nullish x) js" and "list_all (\<lambda>x. \<not> nullish x) es"
  shows "\<exists>t. stats_body h now (JArr js) (JArr es) = Inr t"
proof -
  from assms(2,3) have "list_all (\<lambda>x. \<not> nullish x) (js @ es)" by simp
  from month_loop_ok [OF this, of h "[]"] obtain m
    where "foldE (month_step h) [] (js @ es) = Inr m" by blast
  with assms(1) show ?thesis by (simp add: stats_body_def forEach_def spread_def)
qed

text \<open>
  Claim C10. With a clock that returns the same reading \<open>now\<close> throughout, whenever the
  jobs section of a non-empty jobs collection is built, it ends with the summary of some
  totals \<open>a\<close>, and the statistics of the same jobs print the same three figures: the
  same total, upcoming count and completed count, in the same formats. (The statistics
  can only be their error line instead when the events are not an array or hold a null
  element.)
\<close>

theorem summary_agrees_with_statistics:
  assumes "buildJobsSection h (const_clock now) k jobs = (Inr s, k')"
    and "\<not> noRecords jobs"
  shows "\<exists>a n. s = jobs_summary a
           \<and> (fst (calculateStatistics h (const_clock now) k' jobs events)
                = ''STATISTICS: Error calculating statistics.''
              \<or> (\<exists>rest. fst (calculateStatistics h (const_clock now) k' jobs events)
                    = ''STATISTICS:\<newline>''
                      @ ''- Total Income: $'' @ toFixed2 (totalEarnings a) @ '' USD\<newline>''
                      @ ''- Total Jobs: '' @ n @ ''\<newline>''
                      @ ''- Upcoming Jobs: '' @ dec (int (upcomingJobs a)) @ ''\<newline>''
                      @ ''- Completed Jobs: '' @ dec (int (completedJobs a)) @ ''\<newline>''
                      @ rest))
           \<and> ((\<exists>es. events = JArr es \<and> list_all (\<lambda>x. \<not> nullish x) es) \<longrightarrow>
                (\<exists>rest. fst (calculateStatistics h (const_clock now) k' jobs events)
                    = ''STATISTICS:\<newline>''
                      @ ''- Total Income: $'' @ toFixed2 (totalEarnings a) @ '' USD\<newline>''
                      @ ''- Total Jobs: '' @ n @ ''\<newline>''
                      @ ''- Upcoming Jobs: '' @ dec (int (upcomingJobs a)) @ ''\<newline>''
                      @ ''- Completed Jobs: '' @ dec (int (completedJobs a)) @ ''\<newline>''
                      @ rest))"
proof -
  from assms obtain header a where
    l: "forEach (jobs_step h now)
          \<lparr>sec = header, totalEarnings = Fin 0, upcomingJobs = 0, completedJobs = 0\<rparr> jobs = Inr a"
    and s: "s = jobs_summary a"
    by (auto simp: buildJobsSection_def jobs_body_def const_clock_def bindE_def
        split: sum.splits)
  from forEach_Inr_array [OF l] obtain js where j: "jobs = JArr js"
    and f: "foldE (jobs_step h now)
          \<lparr>sec = header, totalEarnings = Fin 0, upcomingJobs = 0, completedJobs = 0\<rparr> js = Inr a"
    by blast
  have "same_figures \<lparr>sec = header, totalEarnings = Fin 0, upcomingJobs = 0, completedJobs = 0\<rparr>
          \<lparr>totalIncome = Fin 0, st_upcomingJobs = 0, st_completedJobs = 0\<rparr>"
    by (simp add: same_figures_def)
  from jobs_loop_lockstep [OF f this] obtain b where
    b: "foldE (stats_step h now)
          \<lparr>totalIncome = Fin 0, st_upcomingJobs = 0, st_completedJobs = 0\<rparr> js = Inr b"
    and e: "same_figures a b" by blast
  define ev where "ev = default_arg events (JArr [])"
  define fig where "fig = (\<lambda>t. \<exists>rest. t = ''STATISTICS:\<newline>''
                      @ ''- Total Income: $'' @ toFixed2 (totalEarnings a) @ '' USD\<newline>''
                      @ ''- Total Jobs: '' @ Number_toString (Fin (of_nat (length js))) @ ''\<newline>''
                      @ ''- Upcoming Jobs: '' @ dec (int (upcomingJobs a)) @ ''\<newline>''
                      @ ''- Completed Jobs: '' @ dec (int (completedJobs a)) @ ''\<newline>''
                      @ rest)"
  have cs: "fst (calculateStatistics h (const_clock now) k' jobs events) =
      (case stats_body h now (JArr js) ev of
         Inl e \<Rightarrow> ''STATISTICS: Error calculating statistics.'' | Inr t \<Rightarrow> t)"
    using j by (simp add: calculateStatistics_def default_arg_def const_clock_def ev_def)
  have r: "\<And>t. stats_body h now (JArr js) ev = Inr t \<Longrightarrow> fig t"
    unfolding fig_def using b e
    by (auto simp: stats_body_def forEach_def spread_def same_figures_def bindE_def
        split: sum.splits)
  have d: "fst (calculateStatistics h (const_clock now) k' jobs events)
             = ''STATISTICS: Error calculating statistics.''
           \<or> fig (fst (calculateStatistics h (const_clock now) k' jobs events))"
  proof (cases "stats_body h now (JArr js) ev")
    case (Inl x)
    with cs show ?thesis by simp
  next
    case (Inr t)
    with cs r [OF Inr] show ?thesis by simp
  qed
  have g: "(\<exists>es. events = JArr es \<and> list_all (\<lambda>x. \<not> nullish x) es) \<longrightarrow>
             fig (fst (calculateStatistics h (const_clock now) k' jobs events))"
  proof
    assume "\<exists>es. events = JArr es \<and> list_all (\<lambda>x. \<not> nullish x) es"
    then obtain es where es: "events = JArr es" "list_all (\<lambda>x. \<not> nullish x) es" by blast
    then have "ev = JArr es" by (simp add: ev_def default_arg_def)
    with stats_body_ok [OF b jobs_loop_not_nullish [OF f] es(2)]
    obtain t where t: "stats_body h now (JArr js) ev = Inr t" by auto
    with cs r [OF t] show "fig (fst (calculateStatistics h (const_clock now) k' jobs events))"
      by simp
  qed
  from s d g show ?thesis unfolding fig_def by blast
qed

text \<open>Claim C10 on one job of rate 2500 and no date, the clock at the epoch: the
  hypotheses hold, and both places print 2500.00, 0 and 0.\<close>

theorem summary_agrees_with_statistics_witness:
  "\<exists>a. ''JOBS (1 total):\<newline>''
            @ ''- Date TBD: Unknown Client (Job)\<newline>''
            @ ''  Rate: 2500 USD | Status: Unknown | Payment: Unknown\<newline>''
            @ ''  Location: TBD\<newline>''
            @ ''\<newline>''
            @ ''SUMMARY:\<newline>''
            @ ''- Total Earnings: $2500.00 USD\<newline>''
            @ ''- Upcoming Jobs: 0\<newline>''
            @ ''- Completed Jobs: 0\<newline>'' = jobs_summary a
         \<and> (\<exists>n rest. fst (calculateStatistics utc_host (const_clock 0) 1 (JArr [rate_job 2500])
                            (JArr []))
                    = ''STATISTICS:\<newline>''
                      @ ''- Total Income: $'' @ toFixed2 (totalEarnings a) @ '' USD\<newline>''
                      @ ''- Total Jobs: '' @ n @ ''\<newline>''
                      @ ''- Upcoming Jobs: '' @ dec (int (upcomingJobs a)) @ ''\<newline>''
                      @ ''- Completed Jobs: '' @ dec (int (completedJobs a)) @ ''\<newline>''
                      @ rest)"
proof -
  have b: "buildJobsSection utc_host (const_clock 0) 0 (JArr [rate_job 2500])
     = (Inr (''JOBS (1 total):\<newline>''
            @ ''- Date TBD: Unknown Client (Job)\<newline>''
            @ ''  Rate: 2500 USD | Status: Unknown | Payment: Unknown\<newline>''
            @ ''  Location: TBD\<newline>''
            @ ''\<newline>''
            @ ''SUMMARY:\<newline>''
            @ ''- Total Earnings: $2500.00 USD\<newline>''
            @ ''- Upcoming Jobs: 0\<newline>''
            @ ''- Completed Jobs: 0\<newline>''), 1)"
    by code_simp
  have n: "\<not> noRecords (JArr [rate_job 2500])" by simp
  have e: "\<exists>es. JArr [] = JArr es \<and> list_all (\<lambda>x. \<not> nullish x) es" by simp
  from summary_agrees_with_statistics [OF b n, of "JArr []"] e show ?thesis by blast
qed

end
